theory Spec2Isabelle
  imports Main
begin

section \<open>Values shared by the modules\<close>

text \<open>
  Python exceptions that can escape the modelled functions. \<open>RetryError\<close> is what
  tenacity raises once \<open>stop_after_attempt\<close> is reached: it wraps the last exception.
\<close>

datatype exn =
    ValidationError
  | HTTPError nat
  | RequestException
  | JSONDecodeError
  | AttributeError
  | TypeError
  | ValueError
  | DatabaseError
  | AutomationError
  | S3Error
  | ZeroDivisionError
  | RetryError exn

text \<open>
  A Python \<open>datetime\<close> is either naive or timezone-aware; the integer is its position
  on the time line. Comparing a naive with an aware one raises
  \<open>TypeError\<close>.
\<close>

datatype datetime = Naive int | Aware int

fun dt_less :: "datetime \<Rightarrow> datetime \<Rightarrow> exn + bool" where
  "dt_less (Naive a) (Naive b) = Inr (a < b)"
| "dt_less (Aware a) (Aware b) = Inr (a < b)"
| "dt_less (Naive a) (Aware b) = Inl TypeError"
| "dt_less (Aware a) (Naive b) = Inl TypeError"

text \<open>
  The decoded JSON body of a response: what \<open>resp.json()\<close> returns. An object is
  the list of its items; \<open>dict.get\<close> is \<open>map_of\<close>.
\<close>

datatype json =
    JNull
  | JBool bool
  | JNum int
  | JStr string
  | JArr "json list"
  | JObj "(string \<times> json) list"

section \<open>ctgov.py: the unified record\<close>

record Trial =
  trial_id :: string
  title :: "string option"
  phases :: "string list"
  status :: string
  conditions :: "string list"
  countries :: "string list"
  last_changed :: "datetime option"
  raw :: json

section \<open>ctgov.py: the pydantic models of the API response\<close>

text \<open>
  \<open>model_validate\<close> of a pydantic model: a field is looked up under its alias; a
  required field that is missing, or a value of the wrong type, raises
  \<open>ValidationError\<close>; an optional field that is missing or \<open>null\<close> becomes
  \<open>None\<close>; a list field with \<open>default_factory=list\<close> that is missing becomes
  \<open>[]\<close>. Keys that no field names are ignored.
\<close>

datatype IdentificationModule =
  IdentificationModule (nct_id: string) (brief_title: "string option") (official_title: "string option")

datatype DesignModule = DesignModule (module_phases: "string list")

datatype StatusModule =
  StatusModule (overall_status: string) (last_changed_date: "string option")

datatype ConditionsModule = ConditionsModule (module_conditions: "string list")

datatype Location = Location (country: "string option")

datatype ContactsLocationsModule = ContactsLocationsModule (locations: "Location list")

datatype ProtocolSection =
  ProtocolSection
    (identification_module: IdentificationModule)
    (design_module: "DesignModule option")
    (status_module: StatusModule)
    (conditions_module: "ConditionsModule option")
    (contacts_locations_module: "ContactsLocationsModule option")

datatype ApiStudy = ApiStudy (protocol_section: ProtocolSection)

text \<open>\<open>try\<close>-free sequencing of computations that may raise.\<close>

definition and_then :: "exn + 'a \<Rightarrow> ('a \<Rightarrow> exn + 'b) \<Rightarrow> exn + 'b" where
  "and_then m f = (case m of Inl e \<Rightarrow> Inl e | Inr v \<Rightarrow> f v)"

text \<open>Validation of every element of a list; the first failure is the result.\<close>

fun validate_all :: "('a \<Rightarrow> exn + 'b) \<Rightarrow> 'a list \<Rightarrow> exn + 'b list" where
  "validate_all f [] = Inr []"
| "validate_all f (x # xs) =
     (case f x of
        Inl e \<Rightarrow> Inl e
      | Inr y \<Rightarrow> (case validate_all f xs of Inl e \<Rightarrow> Inl e | Inr ys \<Rightarrow> Inr (y # ys)))"

text \<open>A field of type \<open>str\<close>.\<close>

fun validate_str :: "json \<Rightarrow> exn + string" where
  "validate_str (JStr s) = Inr s"
| "validate_str _ = Inl ValidationError"

text \<open>A required field of type \<open>str\<close>.\<close>

definition required_str :: "(string \<times> json) list \<Rightarrow> string \<Rightarrow> exn + string" where
  "required_str obj key =
     (case map_of obj key of None \<Rightarrow> Inl ValidationError | Some v \<Rightarrow> validate_str v)"

text \<open>A field of type \<open>Optional[str]\<close> with default \<open>None\<close>.\<close>

definition optional_str :: "(string \<times> json) list \<Rightarrow> string \<Rightarrow> exn + string option" where
  "optional_str obj key =
     (case map_of obj key of
        None \<Rightarrow> Inr None
      | Some JNull \<Rightarrow> Inr None
      | Some v \<Rightarrow> (case validate_str v of Inl e \<Rightarrow> Inl e | Inr s \<Rightarrow> Inr (Some s)))"

text \<open>A field of type \<open>List[T]\<close> with \<open>default_factory=list\<close>.\<close>

definition list_field ::
  "(json \<Rightarrow> exn + 'a) \<Rightarrow> (string \<times> json) list \<Rightarrow> string \<Rightarrow> exn + 'a list" where
  "list_field f obj key =
     (case map_of obj key of
        None \<Rightarrow> Inr []
      | Some (JArr xs) \<Rightarrow> validate_all f xs
      | Some _ \<Rightarrow> Inl ValidationError)"

text \<open>A field of type \<open>Optional[Model]\<close> with default \<open>None\<close>.\<close>

definition optional_model ::
  "(json \<Rightarrow> exn + 'a) \<Rightarrow> (string \<times> json) list \<Rightarrow> string \<Rightarrow> exn + 'a option" where
  "optional_model f obj key =
     (case map_of obj key of
        None \<Rightarrow> Inr None
      | Some JNull \<Rightarrow> Inr None
      | Some v \<Rightarrow> (case f v of Inl e \<Rightarrow> Inl e | Inr m \<Rightarrow> Inr (Some m)))"

text \<open>A required field of a model type.\<close>

definition required_model ::
  "(json \<Rightarrow> exn + 'a) \<Rightarrow> (string \<times> json) list \<Rightarrow> string \<Rightarrow> exn + 'a" where
  "required_model f obj key =
     (case map_of obj key of None \<Rightarrow> Inl ValidationError | Some v \<Rightarrow> f v)"

fun validate_IdentificationModule :: "json \<Rightarrow> exn + IdentificationModule" where
  "validate_IdentificationModule (JObj obj) =
     and_then (required_str obj ''nctId'') (\<lambda>n.
     and_then (optional_str obj ''briefTitle'') (\<lambda>b.
     and_then (optional_str obj ''officialTitle'') (\<lambda>t.
     Inr (IdentificationModule n b t))))"
| "validate_IdentificationModule _ = Inl ValidationError"

fun validate_DesignModule :: "json \<Rightarrow> exn + DesignModule" where
  "validate_DesignModule (JObj obj) =
     and_then (list_field validate_str obj ''phases'') (\<lambda>ps. Inr (DesignModule ps))"
| "validate_DesignModule _ = Inl ValidationError"

fun validate_StatusModule :: "json \<Rightarrow> exn + StatusModule" where
  "validate_StatusModule (JObj obj) =
     and_then (required_str obj ''overallStatus'') (\<lambda>s.
     and_then (optional_str obj ''lastChangedDate'') (\<lambda>d.
     Inr (StatusModule s d)))"
| "validate_StatusModule _ = Inl ValidationError"

fun validate_ConditionsModule :: "json \<Rightarrow> exn + ConditionsModule" where
  "validate_ConditionsModule (JObj obj) =
     and_then (list_field validate_str obj ''conditions'') (\<lambda>cs. Inr (ConditionsModule cs))"
| "validate_ConditionsModule _ = Inl ValidationError"

fun validate_Location :: "json \<Rightarrow> exn + Location" where
  "validate_Location (JObj obj) =
     and_then (optional_str obj ''country'') (\<lambda>c. Inr (Location c))"
| "validate_Location _ = Inl ValidationError"

fun validate_ContactsLocationsModule :: "json \<Rightarrow> exn + ContactsLocationsModule" where
  "validate_ContactsLocationsModule (JObj obj) =
     and_then (list_field validate_Location obj ''locations'') (\<lambda>ls.
     Inr (ContactsLocationsModule ls))"
| "validate_ContactsLocationsModule _ = Inl ValidationError"

fun validate_ProtocolSection :: "json \<Rightarrow> exn + ProtocolSection" where
  "validate_ProtocolSection (JObj obj) =
     and_then (required_model validate_IdentificationModule obj ''identificationModule'') (\<lambda>i.
     and_then (optional_model validate_DesignModule obj ''designModule'') (\<lambda>d.
     and_then (required_model validate_StatusModule obj ''statusModule'') (\<lambda>s.
     and_then (optional_model validate_ConditionsModule obj ''conditionsModule'') (\<lambda>c.
     and_then (optional_model validate_ContactsLocationsModule obj ''contactsLocationsModule'') (\<lambda>l.
     Inr (ProtocolSection i d s c l))))))"
| "validate_ProtocolSection _ = Inl ValidationError"

text \<open>\<open>ApiStudy.model_validate(raw)\<close>\<close>

fun model_validate :: "json \<Rightarrow> exn + ApiStudy" where
  "model_validate (JObj obj) =
     and_then (required_model validate_ProtocolSection obj ''protocolSection'') (\<lambda>p.
     Inr (ApiStudy p))"
| "model_validate _ = Inl ValidationError"

section \<open>ctgov.py: Trial.from_api\<close>

text \<open>\<open>IdentificationModule.title\<close>: \<open>self.brief_title or self.official_title\<close>\<close>

definition module_title :: "IdentificationModule \<Rightarrow> string option" where
  "module_title m =
     (case brief_title m of
        Some b \<Rightarrow> (if b \<noteq> [] then Some b else official_title m)
      | None \<Rightarrow> official_title m)"

text \<open>
  \<open>v.replace("Z", "+00:00") if v.endswith("Z") else v\<close>: every \<open>Z\<close> is replaced when
  the string ends with one.
\<close>

definition zulu :: "string \<Rightarrow> string" where
  "zulu v =
     (if v \<noteq> [] \<and> last v = CHR ''Z''
      then concat (map (\<lambda>c. if c = CHR ''Z'' then ''+00:00'' else [c]) v)
      else v)"

text \<open>
  \<open>Trial._parse_dt\<close>, the validator of \<open>last_changed\<close>. \<open>datetime.fromisoformat\<close> is
  the standard library's parser, taken as a parameter: \<open>None\<close> is its \<open>ValueError\<close>.
\<close>

definition parse_dt :: "(string \<Rightarrow> datetime option) \<Rightarrow> string option \<Rightarrow> datetime option" where
  "parse_dt fromisoformat v = (case v of None \<Rightarrow> None | Some s \<Rightarrow> fromisoformat (zulu s))"

text \<open>
  \<open>Trial.from_api\<close>. \<open>list(set(countries))\<close> keeps one copy of each country; Python
  leaves the order of the result open, \<open>remdups\<close> fixes one.
\<close>

definition from_api :: "(string \<Rightarrow> datetime option) \<Rightarrow> ApiStudy \<Rightarrow> json \<Rightarrow> Trial" where
  "from_api fromisoformat api raw_payload =
     (let p = protocol_section api;
          found = (case contacts_locations_module p of
                     None \<Rightarrow> []
                   | Some m \<Rightarrow> concat (map (\<lambda>loc. case country loc of
                                                     None \<Rightarrow> []
                                                   | Some c \<Rightarrow> (if c \<noteq> [] then [c] else []))
                                           (locations m)));
          phases_list = (case design_module p of Some m \<Rightarrow> module_phases m | None \<Rightarrow> []);
          conditions_list = (case conditions_module p of Some m \<Rightarrow> module_conditions m | None \<Rightarrow> [])
      in \<lparr>trial_id = nct_id (identification_module p),
          title = module_title (identification_module p),
          phases = phases_list,
          status = overall_status (status_module p),
          conditions = conditions_list,
          countries = remdups found,
          last_changed = parse_dt fromisoformat (last_changed_date (status_module p)),
          raw = raw_payload\<rparr>)"

section \<open>The retrying fetchers: _get (ctgov.py) and _fetch_page (ctis.py)\<close>

text \<open>
  What one \<open>requests.get\<close> meets: the call itself raises (timeout, connection reset), or
  a response arrives with a status code and a body that decodes to JSON or does not.
\<close>

datatype http_result = NetworkError | Response nat "json option"

text \<open>
  The body of both fetchers: \<open>requests.get\<close>, \<open>raise_for_status()\<close> (which raises
  for every status from 400 to 599), \<open>json()\<close>.
\<close>

definition fetch_once :: "http_result \<Rightarrow> exn + json" where
  "fetch_once r =
     (case r of
        NetworkError \<Rightarrow> Inl RequestException
      | Response code body \<Rightarrow>
          (if 400 \<le> code \<and> code < 600 then Inl (HTTPError code)
           else (case body of None \<Rightarrow> Inl JSONDecodeError | Some j \<Rightarrow> Inr j)))"

text \<open>
  tenacity's \<open>@retry(stop=stop_after_attempt(n))\<close> with no \<open>retry=\<close> argument: the
  call is repeated after every exception, whatever its type, until it returns or \<open>n\<close>
  attempts have been made; then \<open>RetryError\<close> is raised. The state \<open>'w\<close> is threaded
  through the attempts.
\<close>

fun retrying :: "nat \<Rightarrow> ('w \<Rightarrow> (exn + 'a) \<times> 'w) \<Rightarrow> 'w \<Rightarrow> (exn + 'a) \<times> 'w" where
  "retrying 0 f w =
     (case f w of (Inr v, w1) \<Rightarrow> (Inr v, w1) | (Inl e, w1) \<Rightarrow> (Inl (RetryError e), w1))"
| "retrying (Suc k) f w =
     (case f w of
        (Inr v, w1) \<Rightarrow> (Inr v, w1)
      | (Inl e, w1) \<Rightarrow> (if k = 0 then (Inl (RetryError e), w1) else retrying k f w1))"

text \<open>
  The server is a function from the number of requests made so far and the
  \<open>pageToken\<close> sent to what the request meets. \<open>_get\<close> (5 attempts) and
  \<open>_fetch_page\<close> (3 attempts) return their result and the new number of requests.
\<close>

definition ctgov_get ::
  "(nat \<Rightarrow> json option \<Rightarrow> http_result) \<Rightarrow> json option \<Rightarrow> nat \<Rightarrow> (exn + json) \<times> nat" where
  "ctgov_get net page_token n = retrying 5 (\<lambda>k. (fetch_once (net k page_token), Suc k)) n"

definition fetch_page ::
  "(nat \<Rightarrow> json option \<Rightarrow> http_result) \<Rightarrow> json option \<Rightarrow> nat \<Rightarrow> (exn + json) \<times> nat" where
  "fetch_page net params n = retrying 3 (\<lambda>k. (fetch_once (net k params), Suc k)) n"

section \<open>ctgov.py: get_trials\<close>

text \<open>Python's truth value of a decoded JSON value.\<close>

fun truthy :: "json \<Rightarrow> bool" where
  "truthy JNull = False"
| "truthy (JBool b) = b"
| "truthy (JNum n) = (n \<noteq> 0)"
| "truthy (JStr s) = (s \<noteq> [])"
| "truthy (JArr xs) = (xs \<noteq> [])"
| "truthy (JObj kvs) = (kvs \<noteq> [])"

text \<open>
  \<open>for raw in v\<close>: a list gives its elements, a string its characters, a dict its
  keys; anything else is not iterable.
\<close>

fun iterate :: "json \<Rightarrow> exn + json list" where
  "iterate (JArr xs) = Inr xs"
| "iterate (JStr s) = Inr (map (\<lambda>c. JStr [c]) s)"
| "iterate (JObj kvs) = Inr (map (\<lambda>kv. JStr (fst kv)) kvs)"
| "iterate _ = Inl TypeError"

text \<open>
  \<open>str.strip()\<close>: characters are code points below 256, of which Python counts
  9-13, 28-32, 133 and 160 as whitespace.
\<close>

definition isspace :: "char \<Rightarrow> bool" where
  "isspace c =
     (let n = (of_char c :: nat)
      in (9 \<le> n \<and> n \<le> 13) \<or> (28 \<le> n \<and> n \<le> 32) \<or> n = 133 \<or> n = 160)"

definition strip :: "string \<Rightarrow> string" where
  "strip s = rev (dropWhile isspace (rev (dropWhile isspace s)))"

text \<open>
  Lines 175-178, the two local filters, for one parsed record: \<open>Inr True\<close> when the
  record is yielded, \<open>Inr False\<close> when it is skipped by \<open>continue\<close>, \<open>Inl\<close> when
  the comparison of the dates raises.
\<close>

definition phase_excludes :: "string option \<Rightarrow> Trial \<Rightarrow> bool" where
  "phase_excludes phase_arg trial =
     (case phase_arg of
        None \<Rightarrow> False
      | Some ph \<Rightarrow> ph \<noteq> [] \<and> ph \<notin> set (map strip (phases trial)))"

definition since_excludes :: "datetime option \<Rightarrow> Trial \<Rightarrow> exn + bool" where
  "since_excludes dt_since trial =
     (case dt_since of
        None \<Rightarrow> Inr False
      | Some cutoff \<Rightarrow>
          (case last_changed trial of
             None \<Rightarrow> Inr False
           | Some d \<Rightarrow> dt_less d cutoff))"

definition keeps :: "string option \<Rightarrow> datetime option \<Rightarrow> Trial \<Rightarrow> exn + bool" where
  "keeps phase_arg dt_since trial =
     (if phase_excludes phase_arg trial then Inr False
      else (case since_excludes dt_since trial of
              Inl e \<Rightarrow> Inl e
            | Inr dropped \<Rightarrow> Inr (\<not> dropped)))"

text \<open>
  The \<open>for\<close> loop of lines 172-180 over the records of one page: the records yielded,
  and the exception that ended the loop, if one did. Nothing catches the
  \<open>ValidationError\<close> of \<open>model_validate\<close> here.
\<close>

fun page_items ::
  "(string \<Rightarrow> datetime option) \<Rightarrow> string option \<Rightarrow> datetime option \<Rightarrow> json list
     \<Rightarrow> Trial list \<times> exn option" where
  "page_items fromisoformat phase_arg dt_since [] = ([], None)"
| "page_items fromisoformat phase_arg dt_since (r # rest) =
     (case model_validate r of
        Inl e \<Rightarrow> ([], Some e)
      | Inr api \<Rightarrow>
          (let trial = from_api fromisoformat api r
           in case keeps phase_arg dt_since trial of
                Inl e \<Rightarrow> ([], Some e)
              | Inr False \<Rightarrow> page_items fromisoformat phase_arg dt_since rest
              | Inr True \<Rightarrow>
                  (case page_items fromisoformat phase_arg dt_since rest of
                     (ys, fin) \<Rightarrow> (trial # ys, fin))))"

text \<open>
  How the iteration over the generator ends. The \<open>while True\<close> loop follows the cursor
  for as long as the server sends one, so it is given fuel: \<open>OutOfFuel\<close> says that the
  generator had more to do.
\<close>

datatype ending = Exhausted | Raised exn | OutOfFuel

text \<open>The \<open>while True\<close> loop of lines 167-185: one page per unit of fuel.\<close>

fun walk ::
  "(string \<Rightarrow> datetime option) \<Rightarrow> (nat \<Rightarrow> json option \<Rightarrow> http_result) \<Rightarrow> string option
     \<Rightarrow> datetime option \<Rightarrow> nat \<Rightarrow> json option \<Rightarrow> nat \<Rightarrow> Trial list \<times> ending" where
  "walk fromisoformat net phase_arg dt_since 0 page_token n = ([], OutOfFuel)"
| "walk fromisoformat net phase_arg dt_since (Suc fuel) page_token n =
     (case ctgov_get net page_token n of
        (Inl e, n1) \<Rightarrow> ([], Raised e)
      | (Inr (JObj obj), n1) \<Rightarrow>
          (case iterate (case map_of obj ''studies'' of None \<Rightarrow> JArr [] | Some v \<Rightarrow> v) of
             Inl e \<Rightarrow> ([], Raised e)
           | Inr raws \<Rightarrow>
               (case page_items fromisoformat phase_arg dt_since raws of
                  (ys, Some e) \<Rightarrow> (ys, Raised e)
                | (ys, None) \<Rightarrow>
                    (case map_of obj ''nextPageToken'' of
                       None \<Rightarrow> (ys, Exhausted)
                     | Some tok \<Rightarrow>
                         (if \<not> truthy tok then (ys, Exhausted)
                          else (case walk fromisoformat net phase_arg dt_since fuel (Some tok) n1 of
                                  (zs, fin) \<Rightarrow> (ys @ zs, fin))))))
      | (Inr _, n1) \<Rightarrow> ([], Raised AttributeError))"

text \<open>
  \<open>get_trials\<close>: the records the generator yields, in order, and how it ends.
  \<open>datetime.fromisoformat(since) if since else None\<close> raises \<open>ValueError\<close> for a
  string that is no date.
\<close>

definition get_trials ::
  "(string \<Rightarrow> datetime option) \<Rightarrow> (nat \<Rightarrow> json option \<Rightarrow> http_result) \<Rightarrow> string option
     \<Rightarrow> string option \<Rightarrow> nat \<Rightarrow> Trial list \<times> ending" where
  "get_trials fromisoformat net phase_arg since fuel =
     (case since of
        None \<Rightarrow> walk fromisoformat net phase_arg None fuel None 0
      | Some s \<Rightarrow>
          (if s = [] then walk fromisoformat net phase_arg None fuel None 0
           else (case fromisoformat s of
                   None \<Rightarrow> ([], Raised ValueError)
                 | Some d \<Rightarrow> walk fromisoformat net phase_arg (Some d) fuel None 0)))"

section \<open>ctgov.py: save_trials_to_db\<close>

text \<open>
  One parameter tuple of the INSERT statement; the columns are
  nct_id, title, status, phase, conditions, locations, last_updated, source, url.
  \<open>last_updated\<close> is a \<open>datetime\<close>, not an optional one: the tuple never holds
  \<open>None\<close> there.
\<close>

record row =
  col_nct_id :: string
  col_title :: "string option"
  col_status :: string
  col_phase :: "string option"
  col_conditions :: "string list"
  col_locations :: "string list"
  col_last_updated :: datetime
  col_source :: string
  col_url :: string

text \<open>\<open>sep.join(xs)\<close>\<close>

fun join :: "string \<Rightarrow> string list \<Rightarrow> string" where
  "join sep [] = []"
| "join sep [x] = x"
| "join sep (x # y # ys) = x @ sep @ join sep (y # ys)"

text \<open>
  The database and the wall clock are the environment of the writer. Every call on the
  connection is recorded as an event; whether a call raises is decided by
  \<open>succeeds\<close> from the calls made so far and the call attempted, so any deterministic
  behaviour of the server is an instance. \<open>clock n\<close> is what the \<open>n\<close>-th call of
  \<open>datetime.now()\<close> returns (a naive datetime).
\<close>

datatype db_event =
    Connect
  | Cursor
  | ExecuteMany "row list"
  | Execute row
  | Commit
  | Rollback
  | Close

record db_env =
  succeeds :: "db_event list \<Rightarrow> db_event \<Rightarrow> bool"
  clock :: "nat \<Rightarrow> int"

text \<open>
  The state of the world: the calls made so far, the number of clock readings taken, the
  committed contents of table \<open>clinical_trials\<close> keyed by its unique \<open>nct_id\<close>, and
  the contents as the open transaction sees them.
\<close>

record db_world =
  events :: "db_event list"
  ticks :: nat
  committed :: "string \<rightharpoonup> row"
  working :: "string \<rightharpoonup> row"

text \<open>\<open>INSERT ... ON CONFLICT (nct_id) DO UPDATE SET\<close> every other column.\<close>

definition upsert :: "(string \<rightharpoonup> row) \<Rightarrow> row \<Rightarrow> (string \<rightharpoonup> row)" where
  "upsert tab r = tab(col_nct_id r \<mapsto> r)"

text \<open>\<open>INSERT ... ON CONFLICT (nct_id) DO NOTHING\<close>\<close>

definition insert_or_ignore :: "(string \<rightharpoonup> row) \<Rightarrow> row \<Rightarrow> (string \<rightharpoonup> row)" where
  "insert_or_ignore tab r = (case tab (col_nct_id r) of None \<Rightarrow> tab(col_nct_id r \<mapsto> r) | Some _ \<Rightarrow> tab)"

text \<open>What a call does to the tables when it succeeds.\<close>

fun effect :: "db_event \<Rightarrow> db_world \<Rightarrow> db_world" where
  "effect Connect w = w\<lparr>working := committed w\<rparr>"
| "effect Cursor w = w"
| "effect (ExecuteMany rs) w = w\<lparr>working := foldl upsert (working w) rs\<rparr>"
| "effect (Execute r) w = w\<lparr>working := insert_or_ignore (working w) r\<rparr>"
| "effect Commit w = w\<lparr>committed := working w\<rparr>"
| "effect Rollback w = w\<lparr>working := committed w\<rparr>"
| "effect Close w = w\<lparr>working := committed w\<rparr>"

text \<open>
  A call on the connection: it is recorded, and it either takes effect and returns
  (\<open>True\<close>) or raises (\<open>False\<close>) and leaves the tables as they are.
\<close>

definition db_call :: "db_env \<Rightarrow> db_event \<Rightarrow> db_world \<Rightarrow> bool \<times> db_world" where
  "db_call env ev w =
     (let ok = succeeds env (events w) ev;
          w1 = w\<lparr>events := events w @ [ev]\<rparr>
      in (ok, if ok then effect ev w1 else w1))"

text \<open>
  The parameter tuple of one record, built the same way at lines 205-219 (batch) and
  259-279 (fallback). \<open>trial.last_changed or datetime.now()\<close> reads the clock only when
  \<open>last_changed\<close> is absent (a datetime is always truthy).
\<close>

definition values_tuple :: "db_env \<Rightarrow> Trial \<Rightarrow> db_world \<Rightarrow> row \<times> db_world" where
  "values_tuple env trial w =
     (let phases_str = (if phases trial \<noteq> [] then Some (join '', '' (phases trial)) else None);
          stamp = (case last_changed trial of
                     Some d \<Rightarrow> (d, w)
                   | None \<Rightarrow> (Naive (clock env (ticks w)), w\<lparr>ticks := Suc (ticks w)\<rparr>))
      in (\<lparr>col_nct_id = trial_id trial,
           col_title = title trial,
           col_status = status trial,
           col_phase = phases_str,
           col_conditions = conditions trial,
           col_locations = countries trial,
           col_last_updated = fst stamp,
           col_source = ''clinicaltrials.gov'',
           col_url = ''https://clinicaltrials.gov/study/'' @ trial_id trial\<rparr>,
          snd stamp))"

text \<open>The loop of lines 204-220.\<close>

fun values_list :: "db_env \<Rightarrow> Trial list \<Rightarrow> db_world \<Rightarrow> row list \<times> db_world" where
  "values_list env [] w = ([], w)"
| "values_list env (t # ts) w =
     (case values_tuple env t w of (r, w1) \<Rightarrow>
        (case values_list env ts w1 of (rs, w2) \<Rightarrow> (r # rs, w2)))"

text \<open>Lines 223-245: cursor, executemany, commit. \<open>False\<close> when one of them raised.\<close>

definition batch_insert :: "db_env \<Rightarrow> row list \<Rightarrow> db_world \<Rightarrow> bool \<times> db_world" where
  "batch_insert env rs w =
     (case db_call env Cursor w of (ok1, w1) \<Rightarrow>
        if \<not> ok1 then (False, w1)
        else (case db_call env (ExecuteMany rs) w1 of (ok2, w2) \<Rightarrow>
                if \<not> ok2 then (False, w2) else db_call env Commit w2))"

text \<open>Lines 281-284: cursor, execute, commit of the fallback.\<close>

definition single_insert :: "db_env \<Rightarrow> row \<Rightarrow> db_world \<Rightarrow> bool \<times> db_world" where
  "single_insert env r w =
     (case db_call env Cursor w of (ok1, w1) \<Rightarrow>
        if \<not> ok1 then (False, w1)
        else (case db_call env (Execute r) w1 of (ok2, w2) \<Rightarrow>
                if \<not> ok2 then (False, w2) else db_call env Commit w2))"

text \<open>
  The fallback loop of lines 257-289. A failed write is followed by
  \<open>client.conn.rollback()\<close> inside the \<open>except\<close> block; when that call raises, the
  exception leaves the loop.
\<close>

fun fallback :: "db_env \<Rightarrow> Trial list \<Rightarrow> nat \<Rightarrow> db_world \<Rightarrow> (exn + nat) \<times> db_world" where
  "fallback env [] saved_count w = (Inr saved_count, w)"
| "fallback env (t # ts) saved_count w =
     (case values_tuple env t w of (r, w1) \<Rightarrow>
        (case single_insert env r w1 of (ok, w2) \<Rightarrow>
           if ok then fallback env ts (Suc saved_count) w2
           else (case db_call env Rollback w2 of (rb, w3) \<Rightarrow>
                   if rb then fallback env ts saved_count w3
                   else (Inl DatabaseError, w3))))"

text \<open>The \<open>try\<close> and \<open>except\<close> blocks of lines 201-292.\<close>

definition save_body :: "db_env \<Rightarrow> Trial list \<Rightarrow> db_world \<Rightarrow> (exn + nat) \<times> db_world" where
  "save_body env trials w =
     (case values_list env trials w of (rs, w1) \<Rightarrow>
        (case batch_insert env rs w1 of (ok, w2) \<Rightarrow>
           if ok then (Inr (length trials), w2)
           else (case db_call env Rollback w2 of (rb, w3) \<Rightarrow>
                   if rb then fallback env trials 0 w3
                   else (Inl DatabaseError, w3))))"

text \<open>
  \<open>save_trials_to_db\<close>: the empty list and a failed \<open>connect()\<close> return 0 before the
  \<open>try\<close>; otherwise \<open>finally: client.close()\<close> runs on every exit, and an exception
  of \<open>close()\<close> replaces the result.
\<close>

definition save_trials_to_db :: "db_env \<Rightarrow> Trial list \<Rightarrow> db_world \<Rightarrow> (exn + nat) \<times> db_world" where
  "save_trials_to_db env trials w =
     (if trials = [] then (Inr 0, w)
      else (case db_call env Connect w of (conn, w1) \<Rightarrow>
              if \<not> conn then (Inr 0, w1)
              else (case save_body env trials w1 of (res, w2) \<Rightarrow>
                      (case db_call env Close w2 of (cl, w3) \<Rightarrow>
                         if cl then (res, w3) else (Inl DatabaseError, w3)))))"

section \<open>ctgov.py: get_trials_and_save\<close>

text \<open>
  How the \<open>try\<close> block of lines 322-348 leaves its \<open>for\<close> loop, with the values of
  \<open>batch\<close> and \<open>total_saved\<close> at that moment: the loop ended or was left by
  \<open>break\<close>; an exception escaped (from the generator or from the writer); or the
  generator ran out of fuel.
\<close>

datatype loop_exit =
    LoopDone "Trial list" nat db_world
  | LoopRaised exn "Trial list" nat db_world
  | LoopStuck

text \<open>
  The \<open>for\<close> loop of lines 323-339 over what the generator yields. The generator is
  lazy: after \<open>break\<close> it is never resumed, so nothing behind the last record taken is
  looked at. Line 331 prints \<open>count//batch_size\<close> after the write was added to
  \<open>total_saved\<close> and before the buffer is cleared: with \<open>batch_size = 0\<close> the
  division raises there.
\<close>

fun consume ::
  "db_env \<Rightarrow> int \<Rightarrow> int \<Rightarrow> Trial list \<Rightarrow> ending \<Rightarrow> Trial list \<Rightarrow> nat \<Rightarrow> nat \<Rightarrow> db_world
     \<Rightarrow> loop_exit" where
  "consume env max_trials batch_size [] fin batch count total_saved w =
     (case fin of
        Exhausted \<Rightarrow> LoopDone batch total_saved w
      | Raised e \<Rightarrow> LoopRaised e batch total_saved w
      | OutOfFuel \<Rightarrow> LoopStuck)"
| "consume env max_trials batch_size (t # ts) fin batch count total_saved w =
     (if batch_size \<le> int (length (batch @ [t])) then
        (case save_trials_to_db env (batch @ [t]) w of
           (Inl e, w1) \<Rightarrow> LoopRaised e (batch @ [t]) total_saved w1
         | (Inr saved, w1) \<Rightarrow>
             (if batch_size = 0 then
                LoopRaised ZeroDivisionError (batch @ [t]) (total_saved + saved) w1
              else if max_trials \<le> int (Suc count) then LoopDone [] (total_saved + saved) w1
              else consume env max_trials batch_size ts fin [] (Suc count) (total_saved + saved) w1))
      else if max_trials \<le> int (Suc count) then LoopDone (batch @ [t]) total_saved w
      else consume env max_trials batch_size ts fin (batch @ [t]) (Suc count) total_saved w)"

text \<open>The \<open>except Exception\<close> block of lines 350-357.\<close>

definition rescue :: "db_env \<Rightarrow> Trial list \<Rightarrow> nat \<Rightarrow> db_world \<Rightarrow> (exn + nat) \<times> db_world" where
  "rescue env batch total_saved w =
     (if batch \<noteq> [] then
        (case save_trials_to_db env batch w of
           (Inl e, w1) \<Rightarrow> (Inl e, w1)
         | (Inr saved, w1) \<Rightarrow> (Inr (total_saved + saved), w1))
      else (Inr total_saved, w))"

text \<open>
  \<open>get_trials_and_save\<close> on what the generator yields: the loop, the write of the last
  incomplete batch (lines 342-345, still inside \<open>try\<close>), and the handler. \<open>None\<close>
  when the fuel of the generator did not suffice.
\<close>

definition save_stream ::
  "db_env \<Rightarrow> int \<Rightarrow> int \<Rightarrow> Trial list \<times> ending \<Rightarrow> db_world \<Rightarrow> ((exn + nat) \<times> db_world) option" where
  "save_stream env max_trials batch_size stream w =
     (case consume env max_trials batch_size (fst stream) (snd stream) [] 0 0 w of
        LoopStuck \<Rightarrow> None
      | LoopRaised e batch total_saved w1 \<Rightarrow> Some (rescue env batch total_saved w1)
      | LoopDone batch total_saved w1 \<Rightarrow>
          (if batch \<noteq> [] then
             (case save_trials_to_db env batch w1 of
                (Inl e, w2) \<Rightarrow> Some (rescue env batch total_saved w2)
              | (Inr saved, w2) \<Rightarrow> Some (Inr (total_saved + saved), w2))
           else Some (Inr total_saved, w1)))"

definition get_trials_and_save ::
  "(string \<Rightarrow> datetime option) \<Rightarrow> (nat \<Rightarrow> json option \<Rightarrow> http_result) \<Rightarrow> db_env
     \<Rightarrow> string option \<Rightarrow> string option \<Rightarrow> int \<Rightarrow> int \<Rightarrow> nat \<Rightarrow> db_world
     \<Rightarrow> ((exn + nat) \<times> db_world) option" where
  "get_trials_and_save fromisoformat net env phase_arg since max_trials batch_size fuel w =
     save_stream env max_trials batch_size (get_trials fromisoformat net phase_arg since fuel) w"

section \<open>ctis_harvester.py\<close>

text \<open>The day \<open>pendulum.yesterday()\<close> returns, and its two formats.\<close>

record date =
  year :: nat
  month :: nat
  day :: nat

definition digit :: "nat \<Rightarrow> char" where
  "digit n = ''0123456789'' ! (n mod 10)"

definition pad2 :: "nat \<Rightarrow> string" where
  "pad2 n = [digit (n div 10), digit n]"

definition pad4 :: "nat \<Rightarrow> string" where
  "pad4 n = [digit (n div 1000), digit (n div 100), digit (n div 10), digit n]"

text \<open>\<open>format("YYYY-MM-DD")\<close> and \<open>format("DD/MM/YYYY")\<close>\<close>

definition format_ymd :: "date \<Rightarrow> string" where
  "format_ymd d = pad4 (year d) @ ''-'' @ pad2 (month d) @ ''-'' @ pad2 (day d)"

definition format_dmy :: "date \<Rightarrow> string" where
  "format_dmy d = pad2 (day d) @ ''/'' @ pad2 (month d) @ ''/'' @ pad4 (year d)"

text \<open>\<open>today_path\<close>: the path of the artifact of a day.\<close>

definition today_path :: "date \<Rightarrow> string" where
  "today_path d = ''/tmp/ctis_'' @ format_ymd d @ ''.csv''"

text \<open>\<open>Path.name\<close>: what follows the last slash.\<close>

definition path_name :: "string \<Rightarrow> string" where
  "path_name p = rev (takeWhile (\<lambda>c. c \<noteq> CHR ''/'') (rev p))"

text \<open>
  What the harvester does to the outside: the steps of the browser session in the order
  of lines 47-70, and the two calls on the S3 client.
\<close>

datatype h_event =
    Launch
  | NewContext
  | NewPage
  | Goto string
  | Click string
  | Fill string string
  | Press string string
  | ExpectDownload
  | Upload string string
  | Presign string

text \<open>
  The environment of the harvester: the day the clock gives, whether a step succeeds, and
  the URL that \<open>generate_presigned_url\<close> returns for a key; each may depend on all
  that happened before.
\<close>

record h_env =
  yesterday :: "h_event list \<Rightarrow> date"
  step_succeeds :: "h_event list \<Rightarrow> h_event \<Rightarrow> bool"
  presigned_url :: "h_event list \<Rightarrow> string \<Rightarrow> string"

record h_world =
  h_events :: "h_event list"
  files :: "string set"

text \<open>A step is recorded, and it returns (\<open>True\<close>) or raises (\<open>False\<close>).\<close>

definition h_call :: "h_env \<Rightarrow> h_event \<Rightarrow> h_world \<Rightarrow> bool \<times> h_world" where
  "h_call env ev w =
     (step_succeeds env (h_events w) ev, w\<lparr>h_events := h_events w @ [ev]\<rparr>)"

text \<open>Steps one after the other; the first that raises ends the sequence.\<close>

fun h_steps :: "h_env \<Rightarrow> h_event list \<Rightarrow> h_world \<Rightarrow> bool \<times> h_world" where
  "h_steps env [] w = (True, w)"
| "h_steps env (ev # evs) w =
     (case h_call env ev w of (ok, w1) \<Rightarrow> if ok then h_steps env evs w1 else (False, w1))"

text \<open>\<open>upload_to_s3\<close>: upload under key \<open>raw/<name>\<close>, then presign that key.\<close>

definition upload_to_s3 :: "h_env \<Rightarrow> string \<Rightarrow> h_world \<Rightarrow> (exn + string) \<times> h_world" where
  "upload_to_s3 env local_path w =
     (let key = ''raw/'' @ path_name local_path
      in case h_call env (Upload local_path key) w of (up, w1) \<Rightarrow>
           if \<not> up then (Inl S3Error, w1)
           else (case h_call env (Presign key) w1 of (ps, w2) \<Rightarrow>
                   if \<not> ps then (Inl S3Error, w2)
                   else (Inr (presigned_url env (h_events w1) key), w2)))"

text \<open>
  One attempt of \<open>run\<close>, lines 41-78. When the artifact is missing, the browser
  session runs up to line 70. There the object that \<open>page.expect_download\<close> of
  \<open>playwright.async_api\<close> returns is entered with a plain \<open>with\<close>; it has the
  asynchronous protocol only, so the statement raises \<open>TypeError\<close>, and the click on
  the download button, the rename to \<open>out_path\<close> and the upload of lines 71-78 are
  not reached on this path.
\<close>

definition run_once :: "h_env \<Rightarrow> h_world \<Rightarrow> (exn + string) \<times> h_world" where
  "run_once env w =
     (let out_path = today_path (yesterday env (h_events w))
      in if out_path \<in> files w then upload_to_s3 env out_path w
         else (case h_steps env
                      [Launch, NewContext, NewPage,
                       Goto ''https://euclinicaltrials.eu/search-for-clinical-trials'',
                       Click ''button:has-text('Advanced filters')'',
                       Click ''label:has-text('Last updated')''] w of (ok1, w1) \<Rightarrow>
                 if \<not> ok1 then (Inl AutomationError, w1)
                 else (case h_steps env
                              [Fill ''input[placeholder='DD/MM/YYYY']''
                                 (format_dmy (yesterday env (h_events w1))),
                               Press ''input[placeholder='DD/MM/YYYY']'' ''Enter'',
                               ExpectDownload] w1 of (ok2, w2) \<Rightarrow>
                         if \<not> ok2 then (Inl AutomationError, w2)
                         else (Inl TypeError, w2))))"

text \<open>\<open>run\<close> with its decorator: at most three attempts.\<close>

definition run :: "h_env \<Rightarrow> h_world \<Rightarrow> (exn + string) \<times> h_world" where
  "run env w = retrying 3 (run_once env) w"

section \<open>Payloads and environments used in the examples\<close>

text \<open>
  A stand-in for \<open>datetime.fromisoformat\<close> in the examples: it reads a date
  \<open>YYYY-MM-DD\<close> as a naive datetime and rejects every other string; the number
  \<open>yyyymmdd\<close> orders the dates as the calendar does.
\<close>

definition isdigit :: "char \<Rightarrow> bool" where
  "isdigit c = (48 \<le> (of_char c :: nat) \<and> (of_char c :: nat) \<le> 57)"

definition digits_value :: "string \<Rightarrow> nat" where
  "digits_value s = foldl (\<lambda>a c. 10 * a + ((of_char c :: nat) - 48)) 0 s"

definition sample_fromisoformat :: "string \<Rightarrow> datetime option" where
  "sample_fromisoformat s =
     (if length s = 10 \<and> s ! 4 = CHR ''-'' \<and> s ! 7 = CHR ''-''
         \<and> list_all isdigit (take 4 s @ take 2 (drop 5 s) @ drop 8 s)
      then Some (Naive (int (digits_value (take 4 s @ take 2 (drop 5 s) @ drop 8 s))))
      else None)"

text \<open>
  The payload of one study as the API sends it, with every optional field and module
  either present or left out.
\<close>

definition opt_field :: "string \<Rightarrow> json option \<Rightarrow> (string \<times> json) list" where
  "opt_field key v = (case v of None \<Rightarrow> [] | Some j \<Rightarrow> [(key, j)])"

definition identification_payload :: "string \<Rightarrow> string option \<Rightarrow> string option \<Rightarrow> json" where
  "identification_payload nct brief official =
     JObj ([(''nctId'', JStr nct)]
           @ opt_field ''briefTitle'' (map_option JStr brief)
           @ opt_field ''officialTitle'' (map_option JStr official))"

definition status_payload :: "string \<Rightarrow> string option \<Rightarrow> json" where
  "status_payload st changed =
     JObj ([(''overallStatus'', JStr st)] @ opt_field ''lastChangedDate'' (map_option JStr changed))"

definition design_payload :: "string list \<Rightarrow> json" where
  "design_payload ps = JObj [(''phases'', JArr (map JStr ps))]"

definition conditions_payload :: "string list \<Rightarrow> json" where
  "conditions_payload cs = JObj [(''conditions'', JArr (map JStr cs))]"

definition location_payload :: "string option \<Rightarrow> json" where
  "location_payload c = JObj (opt_field ''country'' (map_option JStr c))"

definition locations_payload :: "string option list \<Rightarrow> json" where
  "locations_payload ls = JObj [(''locations'', JArr (map location_payload ls))]"

definition payload ::
  "string \<Rightarrow> string option \<Rightarrow> string option \<Rightarrow> string list option \<Rightarrow> string \<Rightarrow> string option
     \<Rightarrow> string list option \<Rightarrow> string option list option \<Rightarrow> json" where
  "payload nct brief official phs st changed conds locs =
     JObj [(''protocolSection'',
            JObj ([(''identificationModule'', identification_payload nct brief official),
                   (''statusModule'', status_payload st changed)]
                  @ opt_field ''designModule'' (map_option design_payload phs)
                  @ opt_field ''conditionsModule'' (map_option conditions_payload conds)
                  @ opt_field ''contactsLocationsModule'' (map_option locations_payload locs)))]"

text \<open>The record that \<open>from_api\<close> builds from such a payload.\<close>

definition trial_of_payload ::
  "(string \<Rightarrow> datetime option) \<Rightarrow> string \<Rightarrow> string option \<Rightarrow> string option \<Rightarrow> string list option
     \<Rightarrow> string \<Rightarrow> string option \<Rightarrow> string list option \<Rightarrow> string option list option \<Rightarrow> Trial" where
  "trial_of_payload fromisoformat nct brief official phs st changed conds locs =
     \<lparr>trial_id = nct,
      title = module_title (IdentificationModule nct brief official),
      phases = (case phs of None \<Rightarrow> [] | Some ps \<Rightarrow> ps),
      status = st,
      conditions = (case conds of None \<Rightarrow> [] | Some cs \<Rightarrow> cs),
      countries = (case locs of
                     None \<Rightarrow> []
                   | Some ls \<Rightarrow> remdups (concat (map (\<lambda>c. case c of
                                                            None \<Rightarrow> []
                                                          | Some n \<Rightarrow> (if n \<noteq> [] then [n] else []))
                                                   ls))),
      last_changed = parse_dt fromisoformat changed,
      raw = payload nct brief official phs st changed conds locs\<rparr>"

text \<open>A study with a phase list and nothing else that is optional.\<close>

definition study :: "string \<Rightarrow> string list \<Rightarrow> json" where
  "study nct phs = payload nct None None (Some phs) ''RECRUITING'' None None None"

text \<open>The page of scenario B: phase lists [Phase 1], [Phase 2, Phase 3] and [].\<close>

definition scenario_page :: json where
  "scenario_page =
     JObj [(''studies'',
            JArr [study ''NCT1'' [''Phase 1''],
                  study ''NCT2'' [''Phase 2'', ''Phase 3''],
                  study ''NCT3'' []])]"

text \<open>A server that answers every request with status 200 and the same body.\<close>

definition one_page :: "json \<Rightarrow> nat \<Rightarrow> json option \<Rightarrow> http_result" where
  "one_page body n page_token = Response 200 (Some body)"

text \<open>A study whose identification module has no \<open>nctId\<close>, and a page that holds it
  before a complete study.\<close>

definition no_id_fields :: "(string \<times> json) list" where
  "no_id_fields =
     [(''protocolSection'',
       JObj [(''identificationModule'', JObj [(''briefTitle'', JStr ''A study without id'')]),
             (''statusModule'', status_payload ''RECRUITING'' None)])]"

definition no_id_page :: json where
  "no_id_page = JObj [(''studies'', JArr [JObj no_id_fields, study ''NCT2'' []])]"

text \<open>A page with one study that names the same condition twice.\<close>

definition duplicate_conditions_page :: json where
  "duplicate_conditions_page =
     JObj [(''studies'',
            JArr [payload ''NCT7'' None None None ''RECRUITING'' None
                    (Some [''Diabetes'', ''Diabetes'']) None])]"

text \<open>A study whose \<open>lastChangedDate\<close> is no date.\<close>

definition undated_api :: ApiStudy where
  "undated_api =
     ApiStudy (ProtocolSection (IdentificationModule ''NCT9'' None None) None
                 (StatusModule ''RECRUITING'' (Some ''soon'')) None None)"

text \<open>A server that answers 404 to everything, and one that does so once.\<close>

definition always_404 :: "nat \<Rightarrow> json option \<Rightarrow> http_result" where
  "always_404 n page_token = Response 404 None"

definition once_404 :: "nat \<Rightarrow> json option \<Rightarrow> http_result" where
  "once_404 n page_token = (if n = 0 then Response 404 None else Response 200 (Some (JObj [])))"

text \<open>An empty table, and a record without a date.\<close>

definition empty_world :: db_world where
  "empty_world = \<lparr>events = [], ticks = 0, committed = Map.empty, working = Map.empty\<rparr>"

definition dateless :: "string \<Rightarrow> Trial" where
  "dateless nct =
     \<lparr>trial_id = nct, title = None, phases = [], status = ''RECRUITING'',
      conditions = [], countries = [], last_changed = None, raw = JNull\<rparr>"

text \<open>
  Three databases: one on which every call succeeds; one that rejects every
  \<open>executemany\<close>; one whose connection is lost once the cursor is open, so that every
  later call raises, \<open>rollback()\<close> included. The clock advances with each reading.
\<close>

definition reliable_db :: db_env where
  "reliable_db = \<lparr>succeeds = (\<lambda>h ev. True), clock = (\<lambda>n. int n)\<rparr>"

definition failing_batch_db :: db_env where
  "failing_batch_db =
     \<lparr>succeeds = (\<lambda>h ev. case ev of ExecuteMany rs \<Rightarrow> False | _ \<Rightarrow> True), clock = (\<lambda>n. int n)\<rparr>"

definition dropped_connection :: db_env where
  "dropped_connection = \<lparr>succeeds = (\<lambda>h ev. ev = Connect \<or> ev = Cursor), clock = (\<lambda>n. int n)\<rparr>"

definition after_fallback_write :: db_world where
  "after_fallback_write = snd (save_trials_to_db failing_batch_db [dateless ''NCT1''] empty_world)"

text \<open>
  A server that sends one page of three studies with a cursor and cannot be reached for
  the second page; the records the walker parses from that page; and the table after
  the first two of them were written.
\<close>

definition failing_second_page :: "nat \<Rightarrow> json option \<Rightarrow> http_result" where
  "failing_second_page n page_token =
     (case page_token of
        None \<Rightarrow> Response 200 (Some (JObj [(''studies'', JArr [study ''NCT1'' [], study ''NCT2'' [],
                                                              study ''NCT3'' []]),
                                             (''nextPageToken'', JStr ''X'')]))
      | Some t \<Rightarrow> NetworkError)"

definition study_trial :: "string \<Rightarrow> Trial" where
  "study_trial nct =
     trial_of_payload sample_fromisoformat nct None None (Some []) ''RECRUITING'' None None None"

definition after_two_studies :: db_world where
  "after_two_studies =
     snd (save_trials_to_db reliable_db [study_trial ''NCT1'', study_trial ''NCT2''] empty_world)"

definition after_first_batch :: db_world where
  "after_first_batch =
     snd (save_trials_to_db reliable_db [dateless ''NCT1'', dateless ''NCT2''] empty_world)"

text \<open>
  The harvester on 10 March 2024: every step succeeds, and the presigned URL carries the
  time of signing, which has moved on when the key is signed again. In one world the
  artifact of the day is in place, in the other it is missing.
\<close>

definition sample_day :: date where
  "sample_day = \<lparr>year = 2024, month = 3, day = 9\<rparr>"

definition signing_env :: h_env where
  "signing_env =
     \<lparr>yesterday = (\<lambda>h. sample_day),
      step_succeeds = (\<lambda>h ev. True),
      presigned_url = (\<lambda>h key. ''https://s3.example/'' @ key @
         (if Presign key \<in> set h then ''?X-Amz-Date=20240310T060000Z''
          else ''?X-Amz-Date=20240310T000000Z''))\<rparr>"

definition artifact_present :: h_world where
  "artifact_present = \<lparr>h_events = [], files = {today_path sample_day}\<rparr>"

definition nothing_yet :: h_world where
  "nothing_yet = \<lparr>h_events = [], files = {}\<rparr>"

definition after_first_run :: h_world where
  "after_first_run = snd (run signing_env artifact_present)"

section \<open>Validation of payloads\<close>

lemma validate_all_str: "validate_all validate_str (map JStr xs) = Inr xs"
  by (induction xs) auto

lemma validate_location_payload: "validate_Location (location_payload c) = Inr (Location c)"
  by (cases c) (simp_all add: location_payload_def opt_field_def optional_str_def and_then_def)

lemma validate_all_locations:
  "validate_all validate_Location (map location_payload ls) = Inr (map Location ls)"
  by (induction ls) (auto simp: validate_location_payload)

lemma validate_identification_payload:
  "validate_IdentificationModule (identification_payload nct brief official)
   = Inr (IdentificationModule nct brief official)"
  by (cases brief; cases official)
     (simp_all add: identification_payload_def opt_field_def required_str_def optional_str_def
        and_then_def)

lemma validate_status_payload:
  "validate_StatusModule (status_payload st changed) = Inr (StatusModule st changed)"
  by (cases changed)
     (simp_all add: status_payload_def opt_field_def required_str_def optional_str_def and_then_def)

lemma validate_design_payload:
  "validate_DesignModule (design_payload ps) = Inr (DesignModule ps)"
  by (simp add: design_payload_def list_field_def and_then_def validate_all_str)

lemma validate_conditions_payload:
  "validate_ConditionsModule (conditions_payload cs) = Inr (ConditionsModule cs)"
  by (simp add: conditions_payload_def list_field_def and_then_def validate_all_str)

lemma validate_locations_payload:
  "validate_ContactsLocationsModule (locations_payload ls)
   = Inr (ContactsLocationsModule (map Location ls))"
  by (simp add: locations_payload_def list_field_def and_then_def validate_all_locations)

lemma payload_not_null:
  "design_payload ps \<noteq> JNull" "conditions_payload cs \<noteq> JNull" "locations_payload ls \<noteq> JNull"
  by (simp_all add: design_payload_def conditions_payload_def locations_payload_def)

lemma optional_model_absent: "map_of obj key = None \<Longrightarrow> optional_model f obj key = Inr None"
  by (simp add: optional_model_def)

lemma optional_model_present:
  "map_of obj key = Some v \<Longrightarrow> v \<noteq> JNull \<Longrightarrow> optional_model f obj key = map_sum id Some (f v)"
  by (cases v; cases "f v") (simp_all add: optional_model_def)

text \<open>A payload validates whichever optional parts it leaves out.\<close>

lemma model_validate_payload:
  "model_validate (payload nct brief official phs st changed conds locs)
   = Inr (ApiStudy (ProtocolSection (IdentificationModule nct brief official)
                      (map_option DesignModule phs)
                      (StatusModule st changed)
                      (map_option ConditionsModule conds)
                      (map_option (\<lambda>ls. ContactsLocationsModule (map Location ls)) locs)))"
  by (cases phs; cases conds; cases locs)
     (simp_all add: payload_def opt_field_def required_model_def and_then_def
        optional_model_absent optional_model_present payload_not_null
        validate_identification_payload validate_status_payload validate_design_payload
        validate_conditions_payload validate_locations_payload)

lemma from_api_payload:
  "from_api f (ApiStudy (ProtocolSection (IdentificationModule nct brief official)
                      (map_option DesignModule phs)
                      (StatusModule st changed)
                      (map_option ConditionsModule conds)
                      (map_option (\<lambda>ls. ContactsLocationsModule (map Location ls)) locs)))
              (payload nct brief official phs st changed conds locs)
   = trial_of_payload f nct brief official phs st changed conds locs"
  by (cases phs; cases conds; cases locs)
     (simp_all add: from_api_def trial_of_payload_def Let_def comp_def)

text \<open>A record whose identification module lacks \<open>nctId\<close> does not validate.\<close>

lemma model_validate_without_id:
  assumes "map_of root ''protocolSection'' = Some (JObj sec)"
      and "map_of sec ''identificationModule'' = Some (JObj idm)"
      and "map_of idm ''nctId'' = None"
  shows "model_validate (JObj root) = Inl ValidationError"
  using assms by (simp add: required_model_def required_str_def and_then_def)

section \<open>Properties of the walker\<close>

text \<open>The loop over a page, for a page split in two.\<close>

lemma page_items_append:
  "page_items f ph since (pre @ rest) =
     (case page_items f ph since pre of
        (ys, Some e) \<Rightarrow> (ys, Some e)
      | (ys, None) \<Rightarrow> (case page_items f ph since rest of (zs, fin) \<Rightarrow> (ys @ zs, fin)))"
  by (induction pre) (auto simp: Let_def split: sum.splits bool.splits prod.splits option.splits)

lemma page_items_payload:
  "page_items f None None [payload nct brief official phs st changed conds locs]
   = ([trial_of_payload f nct brief official phs st changed conds locs], None)"
  by (simp add: model_validate_payload from_api_payload keeps_def phase_excludes_def
        since_excludes_def del: model_validate.simps)

text \<open>
  C2, as the code has it. A record that lacks the native id raises
  \<open>ValidationError\<close> out of the loop over the page: the records before it have been
  yielded, the record itself and every record behind it are not. A payload that leaves
  out optional fields or modules only is parsed, with \<open>None\<close> or the empty list in
  their place.
\<close>

theorem missing_id_ends_the_page:
  assumes "map_of root ''protocolSection'' = Some (JObj sec)"
      and "map_of sec ''identificationModule'' = Some (JObj idm)"
      and "map_of idm ''nctId'' = None"
      and "page_items f ph since pre = (ys, None)"
  shows "page_items f ph since (pre @ JObj root # rest) = (ys, Some ValidationError)
       \<and> page_items f None None [payload nct brief official phs st changed conds locs]
           = ([trial_of_payload f nct brief official phs st changed conds locs], None)"
proof
  have "model_validate (JObj root) = Inl ValidationError"
    using assms(1-3) by (rule model_validate_without_id)
  then have "page_items f ph since (JObj root # rest) = ([], Some ValidationError)"
    by simp
  then show "page_items f ph since (pre @ JObj root # rest) = (ys, Some ValidationError)"
    using assms(4) by (simp add: page_items_append)
next
  show "page_items f None None [payload nct brief official phs st changed conds locs]
           = ([trial_of_payload f nct brief official phs st changed conds locs], None)"
    by (rule page_items_payload)
qed

text \<open>
  The theorem at a page of two records, the first without id: nothing is yielded. And a
  payload with the two required fields only gives a record of defaults.
\<close>

theorem missing_id_ends_the_page_witness:
  "page_items sample_fromisoformat None None ([] @ JObj no_id_fields # [study ''NCT2'' []])
     = ([], Some ValidationError)
   \<and> page_items sample_fromisoformat None None
       [payload ''NCT5'' None None None ''COMPLETED'' None None None]
     = ([\<lparr>trial_id = ''NCT5'', title = None, phases = [], status = ''COMPLETED'',
          conditions = [], countries = [], last_changed = None,
          raw = payload ''NCT5'' None None None ''COMPLETED'' None None None\<rparr>], None)"
proof -
  have a: "map_of no_id_fields ''protocolSection''
             = Some (JObj [(''identificationModule'', JObj [(''briefTitle'', JStr ''A study without id'')]),
                           (''statusModule'', status_payload ''RECRUITING'' None)])"
    by (simp add: no_id_fields_def)
  have b: "map_of [(''identificationModule'', JObj [(''briefTitle'', JStr ''A study without id'')]),
                   (''statusModule'', status_payload ''RECRUITING'' None)] ''identificationModule''
             = Some (JObj [(''briefTitle'', JStr ''A study without id'')])"
    by simp
  have c: "map_of [(''briefTitle'', JStr ''A study without id'')] ''nctId'' = None"
    by simp
  have d: "page_items sample_fromisoformat None None [] = ([], None)"
    by simp
  from missing_id_ends_the_page [OF a b c d,
      of "[study ''NCT2'' []]" "''NCT5''" None None None "''COMPLETED''" None None None]
  show ?thesis
    by (simp add: trial_of_payload_def module_title_def parse_dt_def)
qed

text \<open>
  The claim of C2 fails on the page \<open>no_id_page\<close>: it promises the second record, the
  walker yields nothing and ends with the validation error of the first.
\<close>

theorem missing_id_counterexample:
  "get_trials sample_fromisoformat (one_page no_id_page) None None 1 = ([], Raised ValidationError)"
  by code_simp

text \<open>\<open>retrying\<close> at a numeral.\<close>

lemma retrying_numeral:
  "retrying (numeral k) f w =
     (case f w of
        (Inr v, w1) \<Rightarrow> (Inr v, w1)
      | (Inl e, w1) \<Rightarrow>
          (if pred_numeral k = 0 then (Inl (RetryError e), w1) else retrying (pred_numeral k) f w1))"
  by (simp add: numeral_eq_Suc)

lemma retrying_first: "fst (f w) = Inr v \<Longrightarrow> retrying n f w = f w"
  by (cases n; cases "f w") auto

text \<open>
  C3, as the code has it. A response with a status from 400 to 499 raises
  \<open>HTTPError\<close> like any other failure, and the decorator repeats the request: when
  every attempt meets such a status, \<open>_get\<close> sends five requests and
  \<open>_fetch_page\<close> three before \<open>RetryError\<close> reaches the caller; when the second
  attempt meets status 200, its body is returned.
\<close>

theorem client_errors_are_retried:
  "((\<forall>k<5. \<exists>body. net (n + k) tok = Response code body) \<and> 400 \<le> code \<and> code < 500
      \<longrightarrow> ctgov_get net tok n = (Inl (RetryError (HTTPError code)), n + 5))
   \<and> ((\<forall>k<3. \<exists>body. net (n + k) tok = Response code body) \<and> 400 \<le> code \<and> code < 500
      \<longrightarrow> fetch_page net tok n = (Inl (RetryError (HTTPError code)), n + 3))
   \<and> ((\<exists>body. net n tok = Response code body) \<and> 400 \<le> code \<and> code < 500
       \<and> net (Suc n) tok = Response 200 (Some j)
      \<longrightarrow> ctgov_get net tok n = (Inr j, n + 2) \<and> fetch_page net tok n = (Inr j, n + 2))"
proof (intro conjI impI)
  assume a: "(\<forall>k<5. \<exists>body. net (n + k) tok = Response code body) \<and> 400 \<le> code \<and> code < 500"
  then have f: "\<And>k. k < 5 \<Longrightarrow> fetch_once (net (n + k) tok) = Inl (HTTPError code)"
    by (auto simp: fetch_once_def)
  from f[of 0] f[of 1] f[of 2] f[of 3] f[of 4]
  show "ctgov_get net tok n = (Inl (RetryError (HTTPError code)), n + 5)"
    by (simp add: ctgov_get_def retrying_numeral numeral_eq_Suc)
next
  assume a: "(\<forall>k<3. \<exists>body. net (n + k) tok = Response code body) \<and> 400 \<le> code \<and> code < 500"
  then have f: "\<And>k. k < 3 \<Longrightarrow> fetch_once (net (n + k) tok) = Inl (HTTPError code)"
    by (auto simp: fetch_once_def)
  from f[of 0] f[of 1] f[of 2]
  show "fetch_page net tok n = (Inl (RetryError (HTTPError code)), n + 3)"
    by (simp add: fetch_page_def retrying_numeral numeral_eq_Suc)
next
  assume a: "(\<exists>body. net n tok = Response code body) \<and> 400 \<le> code \<and> code < 500
       \<and> net (Suc n) tok = Response 200 (Some j)"
  then have f: "fetch_once (net n tok) = Inl (HTTPError code)" "fetch_once (net (Suc n) tok) = Inr j"
    by (auto simp: fetch_once_def)
  then show "ctgov_get net tok n = (Inr j, n + 2)"
    by (simp add: ctgov_get_def retrying_numeral numeral_eq_Suc)
  from f show "fetch_page net tok n = (Inr j, n + 2)"
    by (simp add: fetch_page_def retrying_numeral numeral_eq_Suc)
qed

text \<open>The theorem at a server that always answers 404, and at one that does so once.\<close>

theorem client_errors_are_retried_witness:
  "ctgov_get always_404 None 7 = (Inl (RetryError (HTTPError 404)), 12)
   \<and> fetch_page always_404 None 7 = (Inl (RetryError (HTTPError 404)), 10)
   \<and> ctgov_get once_404 None 0 = (Inr (JObj []), 2)
   \<and> fetch_page once_404 None 0 = (Inr (JObj []), 2)"
  using client_errors_are_retried [of always_404 7 None 404]
        client_errors_are_retried [of once_404 0 None 404 "JObj []"]
  by (simp add: always_404_def once_404_def)

text \<open>
  The claim of C3 fails at a server that answers 404: the error reaches the caller after
  five requests of \<open>_get\<close> and three of \<open>_fetch_page\<close>, not after one.
\<close>

theorem client_error_counterexample:
  "snd (ctgov_get always_404 None 0) = 5 \<and> snd (fetch_page always_404 None 0) = 3"
  by code_simp

text \<open>
  What the phase filter tests: the given phase must be equal to a stripped member of the
  phase list. Given \<open>phase="Phase 2"\<close> the walker yields the second record of the
  page of scenario B and no other.
\<close>

lemma phase_filter_membership:
  "map trial_id (fst (get_trials sample_fromisoformat (one_page scenario_page)
                        (Some ''Phase 2'') None 1)) = [''NCT2'']
   \<and> snd (get_trials sample_fromisoformat (one_page scenario_page) (Some ''Phase 2'') None 1)
       = Exhausted
   \<and> phase_excludes (Some ph) t = (ph \<noteq> [] \<and> ph \<notin> set (map strip (phases t)))"
proof (intro conjI)
  show "map trial_id (fst (get_trials sample_fromisoformat (one_page scenario_page)
                        (Some ''Phase 2'') None 1)) = [''NCT2'']"
    by code_simp
  show "snd (get_trials sample_fromisoformat (one_page scenario_page) (Some ''Phase 2'') None 1)
       = Exhausted"
    by code_simp
  show "phase_excludes (Some ph) t = (ph \<noteq> [] \<and> ph \<notin> set (map strip (phases t)))"
    by (simp add: phase_excludes_def)
qed

text \<open>
  C4, at the input of scenario B, where the code departs from it: given
  \<open>phase="2"\<close> and the records with the phase lists [Phase 1], [Phase 2, Phase 3]
  and [], the walker yields no record and ends, since line 175 looks for the whole string
  \<open>"2"\<close> among the members of each phase list.
\<close>

theorem phase_2_yields_nothing:
  "get_trials sample_fromisoformat (one_page scenario_page) (Some ''2'') None 1 = ([], Exhausted)
   \<and> phase_excludes (Some ''2'')
         \<lparr>trial_id = ''NCT2'', title = None, phases = [''Phase 2'', ''Phase 3''],
          status = ''RECRUITING'', conditions = [], countries = [], last_changed = None,
          raw = study ''NCT2'' [''Phase 2'', ''Phase 3'']\<rparr>"
  by code_simp

text \<open>
  C6. A record whose \<open>lastChangedDate\<close> is absent, or is a string that
  \<open>fromisoformat\<close> rejects, has no \<open>last_changed\<close>; whatever the cutoff, the
  "since" filter does not exclude it, so the walker yields it when the phase filter lets
  it pass. The filter excludes a record exactly when the cutoff is present, the record has
  a date, and that date is earlier than the cutoff.
\<close>

theorem since_filter_keeps_undated:
  assumes "parse_dt f (last_changed_date (status_module (protocol_section api))) = None"
  shows "last_changed (from_api f api r) = None
       \<and> since_excludes dt_since (from_api f api r) = Inr False
       \<and> keeps ph dt_since (from_api f api r) = keeps ph None (from_api f api r)
       \<and> (model_validate r = Inr api \<longrightarrow> \<not> phase_excludes ph (from_api f api r) \<longrightarrow>
            fst (page_items f ph dt_since (r # rest))
              = from_api f api r # fst (page_items f ph dt_since rest))
       \<and> (since_excludes dt_since t = Inr True
            \<longleftrightarrow> (\<exists>cutoff d. dt_since = Some cutoff \<and> last_changed t = Some d
                   \<and> dt_less d cutoff = Inr True))"
proof -
  have lc: "last_changed (from_api f api r) = None"
    using assms by (simp add: from_api_def Let_def)
  have se: "since_excludes dt_since (from_api f api r) = Inr False"
    using lc by (simp add: since_excludes_def split: option.splits)
  have ke: "keeps ph dt_since (from_api f api r) = keeps ph None (from_api f api r)"
    using se by (simp add: keeps_def since_excludes_def)
  have pg: "model_validate r = Inr api \<longrightarrow> \<not> phase_excludes ph (from_api f api r) \<longrightarrow>
            fst (page_items f ph dt_since (r # rest))
              = from_api f api r # fst (page_items f ph dt_since rest)"
    using se by (simp add: keeps_def Let_def split: prod.splits)
  have ch: "since_excludes dt_since t = Inr True
            \<longleftrightarrow> (\<exists>cutoff d. dt_since = Some cutoff \<and> last_changed t = Some d
                   \<and> dt_less d cutoff = Inr True)"
    by (auto simp: since_excludes_def split: option.splits)
  show ?thesis using lc se ke pg ch by blast
qed

text \<open>
  The theorem at a study whose date string is \<open>soon\<close>, with the cutoff 1 January 2024:
  the record is yielded.
\<close>

theorem since_filter_keeps_undated_witness:
  "parse_dt sample_fromisoformat (last_changed_date (status_module (protocol_section undated_api)))
     = None
   \<and> since_excludes (Some (Naive 20240101))
       (from_api sample_fromisoformat undated_api
          (payload ''NCT9'' None None None ''RECRUITING'' (Some ''soon'') None None)) = Inr False
   \<and> fst (page_items sample_fromisoformat None (Some (Naive 20240101))
            [payload ''NCT9'' None None None ''RECRUITING'' (Some ''soon'') None None])
     = [from_api sample_fromisoformat undated_api
          (payload ''NCT9'' None None None ''RECRUITING'' (Some ''soon'') None None)]"
proof -
  have h: "parse_dt sample_fromisoformat
             (last_changed_date (status_module (protocol_section undated_api))) = None"
    by (simp add: undated_api_def parse_dt_def zulu_def sample_fromisoformat_def)
  have v: "model_validate (payload ''NCT9'' None None None ''RECRUITING'' (Some ''soon'') None None)
             = Inr undated_api"
    by (simp add: model_validate_payload undated_api_def del: model_validate.simps)
  have p: "\<not> phase_excludes None (from_api sample_fromisoformat undated_api
             (payload ''NCT9'' None None None ''RECRUITING'' (Some ''soon'') None None))"
    by (simp add: phase_excludes_def)
  from since_filter_keeps_undated [OF h,
      of "payload ''NCT9'' None None None ''RECRUITING'' (Some ''soon'') None None"
         "Some (Naive 20240101)" None "[]"]
  have se: "since_excludes (Some (Naive 20240101))
       (from_api sample_fromisoformat undated_api
          (payload ''NCT9'' None None None ''RECRUITING'' (Some ''soon'') None None)) = Inr False"
   and pg: "model_validate (payload ''NCT9'' None None None ''RECRUITING'' (Some ''soon'') None None)
              = Inr undated_api \<longrightarrow>
            \<not> phase_excludes None (from_api sample_fromisoformat undated_api
                 (payload ''NCT9'' None None None ''RECRUITING'' (Some ''soon'') None None)) \<longrightarrow>
            fst (page_items sample_fromisoformat None (Some (Naive 20240101))
                   (payload ''NCT9'' None None None ''RECRUITING'' (Some ''soon'') None None # []))
              = from_api sample_fromisoformat undated_api
                  (payload ''NCT9'' None None None ''RECRUITING'' (Some ''soon'') None None)
                # fst (page_items sample_fromisoformat None (Some (Naive 20240101)) [])"
    by blast+
  from pg v p
  have "fst (page_items sample_fromisoformat None (Some (Naive 20240101))
                   (payload ''NCT9'' None None None ''RECRUITING'' (Some ''soon'') None None # []))
              = from_api sample_fromisoformat undated_api
                  (payload ''NCT9'' None None None ''RECRUITING'' (Some ''soon'') None None)
                # fst (page_items sample_fromisoformat None (Some (Naive 20240101)) [])"
    by blast
  then have y: "fst (page_items sample_fromisoformat None (Some (Naive 20240101))
            [payload ''NCT9'' None None None ''RECRUITING'' (Some ''soon'') None None])
     = [from_api sample_fromisoformat undated_api
          (payload ''NCT9'' None None None ''RECRUITING'' (Some ''soon'') None None)]"
    by (simp only: page_items.simps(1) fst_conv)
  show ?thesis by (rule conjI [OF h conjI [OF se y]])
qed

text \<open>
  C7, as the code has it. \<open>from_api\<close> hands the list of conditions of the payload on as
  it is, in its order and with its repetitions (the empty list when the module is absent);
  of the list fields only \<open>countries\<close> is freed of duplicates.
\<close>

theorem conditions_kept_verbatim:
  "conditions (from_api f api r)
     = (case conditions_module (protocol_section api) of
          None \<Rightarrow> []
        | Some m \<Rightarrow> module_conditions m)
   \<and> map conditions
       (fst (page_items f None None [payload nct brief official phs st changed (Some cs) locs]))
     = [cs]
   \<and> distinct (countries (from_api f api r))"
  by (simp add: from_api_def Let_def page_items_payload trial_of_payload_def
        del: page_items.simps)

text \<open>
  The claim of C7 fails at a payload that names a condition twice: the record built
  from it has the condition twice.
\<close>

theorem conditions_counterexample:
  "map conditions
     (fst (get_trials sample_fromisoformat (one_page duplicate_conditions_page) None None 1))
   = [[''Diabetes'', ''Diabetes'']]"
  by code_simp

section \<open>Properties of the writer\<close>

text \<open>
  C9. Calling the writer with an empty record list returns 0 at once: no call on the
  database is made (the world, with its record of calls, is returned as it was).
\<close>

theorem save_trials_to_db_empty:
  "save_trials_to_db env [] w = (Inr 0, w)
   \<and> events (snd (save_trials_to_db env [] w)) = events w"
  by (simp add: save_trials_to_db_def)

text \<open>
  As long as \<open>rollback()\<close> does not raise, the fallback loop returns a count of at most
  one per record.
\<close>

lemma fallback_returns:
  assumes "\<And>h. succeeds env h Rollback"
  shows "\<exists>n. fst (fallback env ts k w) = Inr n \<and> k \<le> n \<and> n \<le> k + length ts"
  using assms
proof (induction ts arbitrary: k w)
  case Nil
  then show ?case by simp
next
  case (Cons t ts)
  obtain r w1 where vt: "values_tuple env t w = (r, w1)" by (cases "values_tuple env t w")
  obtain ok w2 where si: "single_insert env r w1 = (ok, w2)" by (cases "single_insert env r w1")
  obtain rb w3 where rbk: "db_call env Rollback w2 = (rb, w3)" by (cases "db_call env Rollback w2")
  have rb: "rb" using rbk Cons.prems by (simp add: db_call_def Let_def)
  show ?case
  proof (cases ok)
    case True
    from Cons.IH[of "Suc k" w2] Cons.prems obtain n where
      "fst (fallback env ts (Suc k) w2) = Inr n" "Suc k \<le> n" "n \<le> Suc k + length ts" by blast
    then show ?thesis using vt si True by auto
  next
    case False
    from Cons.IH[of k w3] Cons.prems obtain n where
      "fst (fallback env ts k w3) = Inr n" "k \<le> n" "n \<le> k + length ts" by blast
    then show ?thesis using vt si False rbk rb by auto
  qed
qed

text \<open>
  When neither \<open>rollback()\<close> nor \<open>close()\<close> raises, the writer returns a count that
  does not exceed the number of records.
\<close>

lemma save_trials_to_db_returns:
  assumes rb: "\<And>h. succeeds env h Rollback" and cl: "\<And>h. succeeds env h Close"
  shows "\<exists>n. fst (save_trials_to_db env ts w) = Inr n \<and> n \<le> length ts"
proof (cases "ts = []")
  case True
  then show ?thesis by (simp add: save_trials_to_db_def)
next
  case False
  obtain conn w1 where c: "db_call env Connect w = (conn, w1)" by (cases "db_call env Connect w")
  show ?thesis
  proof (cases conn)
    case False
    then show ?thesis using c \<open>ts \<noteq> []\<close> by (simp add: save_trials_to_db_def)
  next
    case True
    obtain res w2 where b: "save_body env ts w1 = (res, w2)" by (cases "save_body env ts w1")
    obtain c3 w3 where cl3: "db_call env Close w2 = (c3, w3)" by (cases "db_call env Close w2")
    have c3: c3 using cl3 cl by (simp add: db_call_def Let_def)
    have "\<exists>n. res = Inr n \<and> n \<le> length ts"
    proof -
      obtain rs v1 where vl: "values_list env ts w1 = (rs, v1)" by (cases "values_list env ts w1")
      obtain ok v2 where bi: "batch_insert env rs v1 = (ok, v2)" by (cases "batch_insert env rs v1")
      obtain rbk v3 where r3: "db_call env Rollback v2 = (rbk, v3)"
        by (cases "db_call env Rollback v2")
      have rbk: rbk using r3 rb by (simp add: db_call_def Let_def)
      show ?thesis
      proof (cases ok)
        case True
        then show ?thesis using b vl bi by (auto simp: save_body_def)
      next
        case False
        from fallback_returns[of env ts 0 v3] rb obtain n where
          "fst (fallback env ts 0 v3) = Inr n" "n \<le> length ts" by auto
        then show ?thesis using b vl bi False r3 rbk by (auto simp: save_body_def)
      qed
    qed
    then show ?thesis using c True b cl3 c3 \<open>ts \<noteq> []\<close> by (auto simp: save_trials_to_db_def)
  qed
qed

text \<open>
  When every statement is rejected while \<open>rollback()\<close> and \<open>close()\<close> work, the
  writer returns zero.
\<close>

lemma single_insert_rejected:
  assumes "\<And>h r. \<not> succeeds env h (Execute r)"
  shows "\<not> fst (single_insert env r w)"
  using assms by (simp add: single_insert_def db_call_def Let_def split: prod.splits)

lemma fallback_all_rejected:
  assumes "\<And>h r. \<not> succeeds env h (Execute r)" and "\<And>h. succeeds env h Rollback"
  shows "fst (fallback env ts k w) = Inr k"
proof (induction ts arbitrary: w)
  case Nil
  then show ?case by simp
next
  case (Cons t ts)
  obtain r w1 where vt: "values_tuple env t w = (r, w1)" by (cases "values_tuple env t w")
  obtain ok w2 where si: "single_insert env r w1 = (ok, w2)" by (cases "single_insert env r w1")
  obtain rb w3 where rbk: "db_call env Rollback w2 = (rb, w3)" by (cases "db_call env Rollback w2")
  have "\<not> ok" using single_insert_rejected[OF assms(1), of r w1] si by simp
  moreover have rb using rbk assms(2) by (simp add: db_call_def Let_def)
  ultimately show ?case using vt si rbk Cons.IH[of w3] by simp
qed

lemma save_trials_to_db_total_failure:
  assumes "\<And>h rs. \<not> succeeds env h (ExecuteMany rs)"
      and "\<And>h r. \<not> succeeds env h (Execute r)"
      and "\<And>h. succeeds env h Rollback"
      and "\<And>h. succeeds env h Close"
  shows "fst (save_trials_to_db env ts w) = Inr 0"
proof (cases "ts = []")
  case True
  then show ?thesis by (simp add: save_trials_to_db_def)
next
  case False
  obtain conn w1 where c: "db_call env Connect w = (conn, w1)" by (cases "db_call env Connect w")
  obtain rs v1 where vl: "values_list env ts w1 = (rs, v1)" by (cases "values_list env ts w1")
  obtain ok v2 where bi: "batch_insert env rs v1 = (ok, v2)" by (cases "batch_insert env rs v1")
  obtain rbk v3 where r3: "db_call env Rollback v2 = (rbk, v3)" by (cases "db_call env Rollback v2")
  obtain res v4 where fb: "fallback env ts 0 v3 = (res, v4)" by (cases "fallback env ts 0 v3")
  obtain cl v5 where c5: "db_call env Close v4 = (cl, v5)" by (cases "db_call env Close v4")
  have "\<not> ok"
    using bi assms(1) by (auto simp: batch_insert_def db_call_def Let_def split: prod.splits if_splits)
  moreover have rbk using r3 assms(3) by (simp add: db_call_def Let_def)
  moreover have cl using c5 assms(4) by (simp add: db_call_def Let_def)
  moreover have "res = Inr 0" using fallback_all_rejected[OF assms(2,3), of ts 0 v3] fb by simp
  ultimately show ?thesis
    using False c vl bi r3 fb c5 by (simp add: save_trials_to_db_def save_body_def)
qed

text \<open>On a database where every call succeeds the batch is written whole.\<close>

lemma save_trials_to_db_reliable:
  assumes "\<And>h ev. succeeds env h ev" and "ts \<noteq> []"
  shows "fst (save_trials_to_db env ts w) = Inr (length ts)"
proof -
  obtain conn w1 where c: "db_call env Connect w = (conn, w1)" by (cases "db_call env Connect w")
  obtain rs v1 where vl: "values_list env ts w1 = (rs, v1)" by (cases "values_list env ts w1")
  have conn using c assms(1) by (simp add: db_call_def Let_def)
  then show ?thesis
    using c vl assms
    by (simp add: save_trials_to_db_def save_body_def batch_insert_def db_call_def Let_def
        split: prod.splits)
qed

text \<open>
  C1, at the input where the code departs from it: the connection is lost after the
  cursor was opened, so \<open>executemany\<close> raises and the \<open>rollback()\<close> of the
  \<open>except\<close> block raises too. The exception leaves \<open>save_trials_to_db\<close>; no count
  is returned.
\<close>

theorem save_trials_to_db_raises:
  "fst (save_trials_to_db dropped_connection [dateless ''NCT1''] empty_world) = Inl DatabaseError
   \<and> events (snd (save_trials_to_db dropped_connection [dateless ''NCT1''] empty_world))
       = [Connect, Cursor,
          ExecuteMany [fst (values_tuple dropped_connection (dateless ''NCT1'') empty_world)],
          Rollback, Close]"
  by (simp add: save_trials_to_db_def save_body_def batch_insert_def db_call_def values_tuple_def
      dropped_connection_def dateless_def empty_world_def Let_def)

text \<open>One record without a date, written by the batch statement.\<close>

lemma batch_write_single:
  assumes "\<forall>h ev. succeeds env h ev" and "last_changed t = None"
  shows "map_option col_last_updated (committed (snd (save_trials_to_db env [t] w)) (trial_id t))
           = Some (Naive (clock env (ticks w)))"
  using assms
  by (simp add: save_trials_to_db_def save_body_def batch_insert_def db_call_def
      values_tuple_def upsert_def Let_def)

text \<open>One record without a date, written by the fallback after the batch statement failed.\<close>

lemma fallback_write_single:
  assumes "\<forall>h ev. succeeds env h ev = (\<forall>rs. ev \<noteq> ExecuteMany rs)" and "last_changed t = None"
  shows "map_option col_last_updated (committed (snd (save_trials_to_db env [t] w)) (trial_id t))
           = (case committed w (trial_id t) of
                None \<Rightarrow> Some (Naive (clock env (Suc (ticks w))))
              | Some r \<Rightarrow> Some (col_last_updated r))"
    and "ticks (snd (save_trials_to_db env [t] w)) = Suc (Suc (ticks w))"
  using assms
  by (simp_all add: save_trials_to_db_def save_body_def batch_insert_def single_insert_def db_call_def
      values_tuple_def insert_or_ignore_def Let_def split: option.splits)

lemma failing_batch_db_succeeds:
  "\<forall>h ev. succeeds failing_batch_db h ev = (\<forall>rs. ev \<noteq> ExecuteMany rs)"
proof (intro allI)
  fix h ev
  show "succeeds failing_batch_db h ev = (\<forall>rs. ev \<noteq> ExecuteMany rs)"
    by (cases ev) (simp_all add: failing_batch_db_def)
qed

text \<open>
  C10, as the code has it. For a record without \<open>last_changed\<close> the parameter tuple of
  both paths carries the reading of the clock taken when the tuple is built, never
  \<open>NULL\<close>. When the batch statement succeeds that reading is what the table holds, so
  two such writes at different readings store different values. The fallback statement is
  \<open>INSERT ... ON CONFLICT DO NOTHING\<close>: its reading is stored only when the table has
  no row of that \<open>nct_id\<close>; otherwise the stored value stays as it was.
\<close>

theorem dateless_record_gets_clock_reading:
  assumes "last_changed t = None"
  shows "col_last_updated (fst (values_tuple env t w)) = Naive (clock env (ticks w))
       \<and> ((\<forall>h ev. succeeds env h ev) \<longrightarrow>
            map_option col_last_updated (committed (snd (save_trials_to_db env [t] w)) (trial_id t))
              = Some (Naive (clock env (ticks w))))
       \<and> ((\<forall>h ev. succeeds env h ev) \<and> clock env (ticks w) \<noteq> clock env (ticks w') \<longrightarrow>
            map_option col_last_updated (committed (snd (save_trials_to_db env [t] w)) (trial_id t))
              \<noteq> map_option col_last_updated
                   (committed (snd (save_trials_to_db env [t] w')) (trial_id t)))
       \<and> ((\<forall>h ev. succeeds env h ev = (\<forall>rs. ev \<noteq> ExecuteMany rs)) \<longrightarrow>
            map_option col_last_updated (committed (snd (save_trials_to_db env [t] w)) (trial_id t))
              = (case committed w (trial_id t) of
                   None \<Rightarrow> Some (Naive (clock env (Suc (ticks w))))
                 | Some r \<Rightarrow> Some (col_last_updated r)))"
proof (intro conjI impI)
  show "col_last_updated (fst (values_tuple env t w)) = Naive (clock env (ticks w))"
    using assms by (simp add: values_tuple_def)
next
  assume "\<forall>h ev. succeeds env h ev"
  then show "map_option col_last_updated
               (committed (snd (save_trials_to_db env [t] w)) (trial_id t))
             = Some (Naive (clock env (ticks w)))"
    using assms by (rule batch_write_single)
next
  assume a: "(\<forall>h ev. succeeds env h ev) \<and> clock env (ticks w) \<noteq> clock env (ticks w')"
  then have "map_option col_last_updated
               (committed (snd (save_trials_to_db env [t] w)) (trial_id t))
             = Some (Naive (clock env (ticks w)))"
       and "map_option col_last_updated
               (committed (snd (save_trials_to_db env [t] w')) (trial_id t))
             = Some (Naive (clock env (ticks w')))"
    using assms by (simp_all add: batch_write_single)
  with a show "map_option col_last_updated
                 (committed (snd (save_trials_to_db env [t] w)) (trial_id t))
               \<noteq> map_option col_last_updated
                    (committed (snd (save_trials_to_db env [t] w')) (trial_id t))"
    by auto
next
  assume "\<forall>h ev. succeeds env h ev = (\<forall>rs. ev \<noteq> ExecuteMany rs)"
  then show "map_option col_last_updated
               (committed (snd (save_trials_to_db env [t] w)) (trial_id t))
             = (case committed w (trial_id t) of
                  None \<Rightarrow> Some (Naive (clock env (Suc (ticks w))))
                | Some r \<Rightarrow> Some (col_last_updated r))"
    using assms by (rule fallback_write_single(1))
qed

text \<open>
  The theorem at the record \<open>NCT1\<close> and the empty table: the batch statement stores the
  first reading of the clock, the fallback the second (the first went into the tuple of
  the failed batch).
\<close>

theorem dateless_record_gets_clock_reading_witness:
  "last_changed (dateless ''NCT1'') = None
   \<and> col_last_updated (fst (values_tuple reliable_db (dateless ''NCT1'') empty_world)) = Naive 0
   \<and> map_option col_last_updated
       (committed (snd (save_trials_to_db reliable_db [dateless ''NCT1''] empty_world)) ''NCT1'')
     = Some (Naive 0)
   \<and> map_option col_last_updated
       (committed (snd (save_trials_to_db reliable_db [dateless ''NCT1''] empty_world)) ''NCT1'')
     \<noteq> map_option col_last_updated
         (committed (snd (save_trials_to_db reliable_db [dateless ''NCT1''] after_first_batch))
            ''NCT1'')
   \<and> map_option col_last_updated
       (committed (snd (save_trials_to_db failing_batch_db [dateless ''NCT1''] empty_world)) ''NCT1'')
     = Some (Naive 1)"
proof -
  have d: "last_changed (dateless ''NCT1'') = None" by (simp add: dateless_def)
  have i: "trial_id (dateless ''NCT1'') = ''NCT1''" by (simp add: dateless_def)
  have r: "\<forall>h ev. succeeds reliable_db h ev" by (simp add: reliable_db_def)
  have t: "ticks after_first_batch = 2"
    by (simp add: after_first_batch_def save_trials_to_db_def save_body_def batch_insert_def
        db_call_def values_tuple_def reliable_db_def dateless_def empty_world_def Let_def)
  have c: "clock reliable_db (ticks empty_world) \<noteq> clock reliable_db (ticks after_first_batch)"
    by (simp add: t) (simp add: reliable_db_def empty_world_def)
  from dateless_record_gets_clock_reading [OF d, of reliable_db empty_world after_first_batch]
       dateless_record_gets_clock_reading [OF d, of failing_batch_db empty_world]
       r c failing_batch_db_succeeds d i
  show ?thesis
    by (simp add: reliable_db_def failing_batch_db_def empty_world_def)
qed

text \<open>
  The claim of C10 fails in the fallback path: the record \<open>NCT1\<close> is written twice by
  the fallback, at the clock readings 1 and 3, and the table holds the reading 1 after
  both writes.
\<close>

theorem dateless_record_counterexample:
  "last_changed (dateless ''NCT1'') = None
   \<and> map_option col_last_updated (committed after_fallback_write ''NCT1'') = Some (Naive 1)
   \<and> clock failing_batch_db (Suc (ticks after_fallback_write)) = 3
   \<and> map_option col_last_updated
       (committed (snd (save_trials_to_db failing_batch_db [dateless ''NCT1''] after_fallback_write))
          ''NCT1'')
     = Some (Naive 1)"
proof -
  have d: "last_changed (dateless ''NCT1'') = None" by (simp add: dateless_def)
  have i: "trial_id (dateless ''NCT1'') = ''NCT1''" by (simp add: dateless_def)
  have first: "map_option col_last_updated (committed after_fallback_write ''NCT1'') = Some (Naive 1)"
    using fallback_write_single(1) [OF failing_batch_db_succeeds d, of empty_world]
    by (simp add: after_fallback_write_def i) (simp add: empty_world_def failing_batch_db_def)
  have tk: "ticks after_fallback_write = 2"
    using fallback_write_single(2) [OF failing_batch_db_succeeds d, of empty_world]
    by (simp add: after_fallback_write_def empty_world_def)
  from first obtain r where r: "committed after_fallback_write ''NCT1'' = Some r"
    "col_last_updated r = Naive 1" by auto
  have second: "map_option col_last_updated
       (committed (snd (save_trials_to_db failing_batch_db [dateless ''NCT1''] after_fallback_write))
          ''NCT1'')
     = Some (Naive 1)"
    using fallback_write_single(1) [OF failing_batch_db_succeeds d, of after_fallback_write] r
    by (simp add: i)
  have ck: "clock failing_batch_db (Suc (ticks after_fallback_write)) = 3"
    by (simp add: tk failing_batch_db_def)
  show ?thesis using d first ck second by blast
qed

section \<open>Properties of the orchestrator\<close>

text \<open>
  When an exception leaves the loop, the buffer consists of the records yielded last:
  some prefix of the stream ends with it.
\<close>

lemma consume_buffer:
  "consume env mx bs ts fin batch0 c tot w = LoopRaised e batch total_saved w1
   \<Longrightarrow> \<exists>k flushed. batch0 @ take k ts = flushed @ batch"
proof (induction ts arbitrary: batch0 c tot w)
  case Nil
  then show ?case by (auto split: ending.splits)
next
  case (Cons t ts)
  show ?case
  proof (cases "bs \<le> int (length (batch0 @ [t]))")
    case True
    obtain res w' where sv: "save_trials_to_db env (batch0 @ [t]) w = (res, w')"
      by (cases "save_trials_to_db env (batch0 @ [t]) w")
    show ?thesis
    proof (cases res)
      case (Inl x)
      with Cons.prems True sv have "batch = batch0 @ [t]" by simp
      then have "batch0 @ take 1 (t # ts) = [] @ batch" by simp
      then show ?thesis by blast
    next
      case (Inr saved)
      show ?thesis
      proof (cases "bs = 0")
        case True
        with Cons.prems \<open>bs \<le> int (length (batch0 @ [t]))\<close> sv Inr
        have "batch = batch0 @ [t]" by simp
        then have "batch0 @ take 1 (t # ts) = [] @ batch" by simp
        then show ?thesis by blast
      next
        case nz: False
        show ?thesis
        proof (cases "mx \<le> int (Suc c)")
          case True
          with Cons.prems \<open>bs \<le> int (length (batch0 @ [t]))\<close> sv Inr nz show ?thesis by simp
        next
          case False
          with Cons.prems \<open>bs \<le> int (length (batch0 @ [t]))\<close> sv Inr nz
          have "consume env mx bs ts fin [] (Suc c) (tot + saved) w'
                  = LoopRaised e batch total_saved w1"
            by simp
          from Cons.IH[OF this] obtain k flushed where "[] @ take k ts = flushed @ batch" by blast
          then have "batch0 @ take (Suc k) (t # ts) = (batch0 @ [t] @ flushed) @ batch" by simp
          then show ?thesis by blast
        qed
      qed
    qed
  next
    case False
    show ?thesis
    proof (cases "mx \<le> int (Suc c)")
      case True
      with Cons.prems False show ?thesis by simp
    next
      case nb: False
      with Cons.prems False
      have "consume env mx bs ts fin (batch0 @ [t]) (Suc c) tot w = LoopRaised e batch total_saved w1"
        by simp
      from Cons.IH[OF this] obtain k flushed where "(batch0 @ [t]) @ take k ts = flushed @ batch"
        by blast
      then have "batch0 @ take (Suc k) (t # ts) = flushed @ batch" by simp
      then show ?thesis by blast
    qed
  qed
qed

text \<open>
  What the handler does with the state in which an exception leaves the loop: it passes
  the buffer to the writer, and whatever the writer does is the outcome of the run.
\<close>

lemma exception_reaches_rescue:
  assumes "get_trials fromisoformat net ph since fuel = (ts, fin)"
      and "consume env max_trials batch_size ts fin [] 0 0 w = LoopRaised e batch total_saved w1"
  shows "get_trials_and_save fromisoformat net env ph since max_trials batch_size fuel w
           = Some (rescue env batch total_saved w1)"
  using assms by (simp add: get_trials_and_save_def save_stream_def)

lemma failing_second_page_stream:
  "get_trials sample_fromisoformat failing_second_page None None 2
     = ([study_trial ''NCT1'', study_trial ''NCT2'', study_trial ''NCT3''],
        Raised (RetryError RequestException))"
  by code_simp

lemma two_studies_written:
  "save_trials_to_db reliable_db [study_trial ''NCT1'', study_trial ''NCT2''] empty_world
     = (Inr 2, after_two_studies)"
proof -
  have "fst (save_trials_to_db reliable_db [study_trial ''NCT1'', study_trial ''NCT2''] empty_world)
          = Inr 2"
    using save_trials_to_db_reliable
            [of reliable_db "[study_trial ''NCT1'', study_trial ''NCT2'']" empty_world]
    by (simp add: reliable_db_def)
  then show ?thesis by (simp add: after_two_studies_def prod_eq_iff)
qed

text \<open>
  On a database where every call succeeds the handler does what it is there for: of
  three records followed by an exception of the fetcher, with batches of two, the loop
  writes two, the handler the third, and the run returns 3.
\<close>

lemma rescue_on_reliable_db:
  "map_option fst
     (get_trials_and_save sample_fromisoformat failing_second_page reliable_db None None 100 2 2
        empty_world)
   = Some (Inr 3)"
proof -
  have h: "consume reliable_db 100 2 [study_trial ''NCT1'', study_trial ''NCT2'', study_trial ''NCT3'']
       (Raised (RetryError RequestException)) [] 0 0 empty_world
     = LoopRaised (RetryError RequestException) [study_trial ''NCT3''] 2 after_two_studies"
    by (simp add: two_studies_written)
  have "fst (save_trials_to_db reliable_db [study_trial ''NCT3''] after_two_studies) = Inr 1"
    using save_trials_to_db_reliable [of reliable_db "[study_trial ''NCT3'']" after_two_studies]
    by (simp add: reliable_db_def)
  then obtain w2 where
    s: "save_trials_to_db reliable_db [study_trial ''NCT3''] after_two_studies = (Inr 1, w2)"
    by (cases "save_trials_to_db reliable_db [study_trial ''NCT3''] after_two_studies") auto
  from exception_reaches_rescue [OF failing_second_page_stream h] s
  show ?thesis by (simp add: rescue_def)
qed

text \<open>
  With \<open>batch_size = 0\<close> the first record is written, the division of line 331
  raises before the buffer is cleared, the handler writes the same record again, and the
  run returns 2 for one record.
\<close>

lemma zero_batch_size_counts_twice:
  "map_option fst
     (get_trials_and_save sample_fromisoformat failing_second_page reliable_db None None 100 0 2
        empty_world)
   = Some (Inr 2)"
proof -
  have "fst (save_trials_to_db reliable_db [study_trial ''NCT1''] empty_world) = Inr 1"
    using save_trials_to_db_reliable [of reliable_db "[study_trial ''NCT1'']" empty_world]
    by (simp add: reliable_db_def)
  then obtain w1 where
    s1: "save_trials_to_db reliable_db [study_trial ''NCT1''] empty_world = (Inr 1, w1)"
    by (cases "save_trials_to_db reliable_db [study_trial ''NCT1''] empty_world") auto
  have "fst (save_trials_to_db reliable_db [study_trial ''NCT1''] w1) = Inr 1"
    using save_trials_to_db_reliable [of reliable_db "[study_trial ''NCT1'']" w1]
    by (simp add: reliable_db_def)
  then obtain w2 where
    s2: "save_trials_to_db reliable_db [study_trial ''NCT1''] w1 = (Inr 1, w2)"
    by (cases "save_trials_to_db reliable_db [study_trial ''NCT1''] w1") auto
  have h: "consume reliable_db 100 0 [study_trial ''NCT1'', study_trial ''NCT2'', study_trial ''NCT3'']
       (Raised (RetryError RequestException)) [] 0 0 empty_world
     = LoopRaised ZeroDivisionError [study_trial ''NCT1''] 1 w1"
    by (simp add: s1)
  from exception_reaches_rescue [OF failing_second_page_stream h] s2
  show ?thesis by (simp add: rescue_def)
qed

text \<open>
  C8, at the input where the code departs from it. The server sends three records and
  cannot be reached for the second page, so \<open>RetryError\<close> leaves the loop with the
  three records in the buffer. The connection to the database is lost once the cursor is
  open: the write of the handler raises out of \<open>save_trials_to_db\<close>, as it does in
  C1, the handler does not catch it, and \<open>get_trials_and_save\<close> raises where the
  claim has it return a total.
\<close>

theorem rescue_write_raises:
  "get_trials sample_fromisoformat failing_second_page None None 2
     = ([study_trial ''NCT1'', study_trial ''NCT2'', study_trial ''NCT3''],
        Raised (RetryError RequestException))
   \<and> consume dropped_connection 100 10
         [study_trial ''NCT1'', study_trial ''NCT2'', study_trial ''NCT3'']
         (Raised (RetryError RequestException)) [] 0 0 empty_world
     = LoopRaised (RetryError RequestException)
         [study_trial ''NCT1'', study_trial ''NCT2'', study_trial ''NCT3''] 0 empty_world
   \<and> map_option fst
       (get_trials_and_save sample_fromisoformat failing_second_page dropped_connection
          None None 100 10 2 empty_world)
     = Some (Inl DatabaseError)"
proof -
  have h: "consume dropped_connection 100 10
         [study_trial ''NCT1'', study_trial ''NCT2'', study_trial ''NCT3'']
         (Raised (RetryError RequestException)) [] 0 0 empty_world
     = LoopRaised (RetryError RequestException)
         [study_trial ''NCT1'', study_trial ''NCT2'', study_trial ''NCT3''] 0 empty_world"
    by simp
  obtain rs v1 where vl: "values_list dropped_connection
        [study_trial ''NCT1'', study_trial ''NCT2'', study_trial ''NCT3'']
        (snd (db_call dropped_connection Connect empty_world)) = (rs, v1)"
    by (cases "values_list dropped_connection
        [study_trial ''NCT1'', study_trial ''NCT2'', study_trial ''NCT3'']
        (snd (db_call dropped_connection Connect empty_world))")
  have w: "fst (save_trials_to_db dropped_connection
            [study_trial ''NCT1'', study_trial ''NCT2'', study_trial ''NCT3''] empty_world)
          = Inl DatabaseError"
    using vl
    by (simp add: save_trials_to_db_def save_body_def batch_insert_def db_call_def
        dropped_connection_def Let_def split: prod.splits)
  have "map_option fst
       (get_trials_and_save sample_fromisoformat failing_second_page dropped_connection
          None None 100 10 2 empty_world)
     = Some (Inl DatabaseError)"
    using exception_reaches_rescue [OF failing_second_page_stream h] w
    by (simp add: rescue_def split: prod.splits sum.splits)
  with failing_second_page_stream h show ?thesis by blast
qed

section \<open>Properties of the harvester\<close>

lemma digit_not_slash: "digit n \<noteq> CHR ''/''"
proof -
  have "n mod 10 < length ''0123456789''" by simp
  then have "digit n \<in> set ''0123456789''" unfolding digit_def by (rule nth_mem)
  then show ?thesis by auto
qed

text \<open>The key of the artifact of a day.\<close>

lemma path_name_today: "path_name (today_path d) = ''ctis_'' @ format_ymd d @ ''.csv''"
  by (simp add: path_name_def today_path_def format_ymd_def pad2_def pad4_def digit_not_slash)

lemma format_sample_day: "format_ymd sample_day = ''2024-03-09''"
  by code_simp

text \<open>
  \<open>upload_to_s3\<close> starts with the upload, calls nothing but the S3 client, and leaves
  the files alone; what it returns is a URL presigned for the key.
\<close>

lemma upload_to_s3_events:
  "h_events (snd (upload_to_s3 env p w)) = h_events w @ [Upload p (''raw/'' @ path_name p)]
   \<or> h_events (snd (upload_to_s3 env p w))
       = h_events w @ [Upload p (''raw/'' @ path_name p), Presign (''raw/'' @ path_name p)]"
  by (simp add: upload_to_s3_def h_call_def Let_def)

lemma upload_to_s3_files: "files (snd (upload_to_s3 env p w)) = files w"
  by (simp add: upload_to_s3_def h_call_def Let_def)

lemma upload_to_s3_result:
  "fst (upload_to_s3 env p w) = Inr u \<Longrightarrow> \<exists>h. u = presigned_url env h (''raw/'' @ path_name p)"
  by (auto simp: upload_to_s3_def h_call_def Let_def split: if_splits)

lemma upload_to_s3_ok:
  assumes "step_succeeds env (h_events w) (Upload p (''raw/'' @ path_name p))"
      and "step_succeeds env (h_events w @ [Upload p (''raw/'' @ path_name p)])
             (Presign (''raw/'' @ path_name p))"
  shows "upload_to_s3 env p w =
           (Inr (presigned_url env (h_events w @ [Upload p (''raw/'' @ path_name p)])
                   (''raw/'' @ path_name p)),
            w\<lparr>h_events := h_events w @ [Upload p (''raw/'' @ path_name p),
                                        Presign (''raw/'' @ path_name p)]\<rparr>)"
  using assms by (simp add: upload_to_s3_def h_call_def Let_def)

text \<open>
  An attempt of \<open>run\<close> returns a reference only when it finds the artifact in place:
  the harvest itself ends in an exception.
\<close>

lemma run_once_returns_only_if_present:
  "fst (run_once env w) = Inr u \<Longrightarrow> today_path (yesterday env (h_events w)) \<in> files w"
  by (auto simp: run_once_def Let_def split: if_splits prod.splits)

lemma harvest_raises:
  "fst (run signing_env nothing_yet) = Inl (RetryError TypeError)"
  by (simp add: run_def retrying_numeral run_once_def h_call_def signing_env_def nothing_yet_def
      Let_def)

text \<open>What every attempt preserves, and what every result satisfies, holds of the whole.\<close>

lemma retrying_invariant:
  assumes step: "\<And>w. P w \<Longrightarrow> P (snd (f w))"
      and res: "\<And>w v. P w \<Longrightarrow> fst (f w) = Inr v \<Longrightarrow> Q v"
  shows "P w \<Longrightarrow> P (snd (retrying n f w)) \<and> (\<forall>v. fst (retrying n f w) = Inr v \<longrightarrow> Q v)"
proof (induction n arbitrary: w)
  case 0
  obtain r w1 where f: "f w = (r, w1)" by (cases "f w")
  from step[OF 0] res[OF 0] f show ?case by (cases r) auto
next
  case (Suc k)
  obtain r w1 where f: "f w = (r, w1)" by (cases "f w")
  from step[OF Suc.prems] f have p1: "P w1" by simp
  show ?case
  proof (cases r)
    case (Inr v)
    with f p1 res[OF Suc.prems] show ?thesis by auto
  next
    case (Inl e)
    show ?thesis
    proof (cases "k = 0")
      case True
      with f Inl p1 show ?thesis by simp
    next
      case False
      with f Inl Suc.IH[OF p1] show ?thesis by simp
    qed
  qed
qed

text \<open>What holds after the first attempt and is preserved by every attempt holds at the end.\<close>

lemma retrying_after_first:
  assumes first: "P (snd (f w))" and step: "\<And>w. P w \<Longrightarrow> P (snd (f w))"
  shows "P (snd (retrying n f w))"
proof -
  obtain r w1 where f: "f w = (r, w1)" by (cases "f w")
  from first f have p1: "P w1" by simp
  have later: "P (snd (retrying k f w1))" for k
    using retrying_invariant [where P = P and Q = "\<lambda>v. True" and f = f and w = w1 and n = k]
          step p1 by blast
  show ?thesis
  proof (cases n)
    case 0
    with f p1 show ?thesis by (cases r) auto
  next
    case (Suc k)
    with f p1 later[of k] show ?thesis by (cases r) auto
  qed
qed

text \<open>Two functions that agree wherever the attempts can lead are retried alike.\<close>

lemma retrying_cong:
  assumes agree: "\<And>w. P w \<Longrightarrow> f w = g w" and keep: "\<And>w. P w \<Longrightarrow> P (snd (g w))"
  shows "P w \<Longrightarrow> retrying n f w = retrying n g w"
proof (induction n arbitrary: w)
  case 0
  then show ?case by (simp add: agree)
next
  case (Suc k)
  obtain r w1 where g: "g w = (r, w1)" by (cases "g w")
  from keep[OF Suc.prems] g have p1: "P w1" by simp
  from agree[OF Suc.prems] g have f: "f w = (r, w1)" by simp
  show ?case
  proof (cases r)
    case (Inr v)
    with f g show ?thesis by simp
  next
    case (Inl e)
    with f g Suc.IH[OF p1] show ?thesis by simp
  qed
qed

text \<open>
  C5, as the code has it. When the artifact of the target day exists, \<open>run\<close> is
  nothing but up to three attempts of \<open>upload_to_s3\<close> on that file: it launches no
  browser and navigates nowhere, it does upload the existing file again under the key
  \<open>raw/ctis_<day>.csv\<close>, every call it makes is that upload or the presigning of that
  key, and the files stay as they are. A reference it returns is a URL presigned for
  that key; when the two calls on S3 succeed, it is the URL presigned at that moment,
  after exactly one upload and one presigning.
\<close>

theorem run_with_existing_artifact:
  assumes "\<forall>h. yesterday env h = d" and "today_path d \<in> files w"
  shows "run env w = retrying 3 (upload_to_s3 env (today_path d)) w
       \<and> (\<exists>evs. h_events (snd (run env w))
                  = h_events w
                    @ Upload (today_path d) (''raw/ctis_'' @ format_ymd d @ ''.csv'') # evs
            \<and> set evs \<subseteq> {Upload (today_path d) (''raw/ctis_'' @ format_ymd d @ ''.csv''),
                           Presign (''raw/ctis_'' @ format_ymd d @ ''.csv'')})
       \<and> files (snd (run env w)) = files w
       \<and> (fst (run env w) = Inr u \<longrightarrow>
            (\<exists>h. u = presigned_url env h (''raw/ctis_'' @ format_ymd d @ ''.csv'')))
       \<and> (step_succeeds env (h_events w)
              (Upload (today_path d) (''raw/ctis_'' @ format_ymd d @ ''.csv''))
          \<and> step_succeeds env
              (h_events w @ [Upload (today_path d) (''raw/ctis_'' @ format_ymd d @ ''.csv'')])
              (Presign (''raw/ctis_'' @ format_ymd d @ ''.csv''))
          \<longrightarrow> run env w
               = (Inr (presigned_url env
                         (h_events w
                          @ [Upload (today_path d) (''raw/ctis_'' @ format_ymd d @ ''.csv'')])
                         (''raw/ctis_'' @ format_ymd d @ ''.csv'')),
                  w\<lparr>h_events := h_events w
                       @ [Upload (today_path d) (''raw/ctis_'' @ format_ymd d @ ''.csv''),
                          Presign (''raw/ctis_'' @ format_ymd d @ ''.csv'')]\<rparr>))"
proof -
  let ?p = "today_path d"
  let ?key = "''raw/ctis_'' @ format_ymd d @ ''.csv''"
  let ?S = "{Upload ?p ?key, Presign ?key}"
  let ?F = "\<lambda>w' :: h_world. files w' = files w"
  let ?E = "\<lambda>w' :: h_world. \<exists>evs. h_events w' = h_events w @ Upload ?p ?key # evs \<and> set evs \<subseteq> ?S"
  let ?Q = "\<lambda>v. \<exists>h. v = presigned_url env h ?key"
  have agree: "run_once env w' = upload_to_s3 env ?p w'" if "?F w'" for w'
    using that assms by (simp add: run_once_def Let_def)
  have keep: "?F (snd (upload_to_s3 env ?p w'))" if "?F w'" for w'
    using that by (simp add: upload_to_s3_files)
  have c1: "run env w = retrying 3 (upload_to_s3 env ?p) w"
    unfolding run_def
  proof (rule retrying_cong [where P = ?F])
    fix w' :: h_world
    assume "?F w'"
    then show "run_once env w' = upload_to_s3 env ?p w'" by (rule agree)
  next
    fix w' :: h_world
    assume "?F w'"
    then show "?F (snd (upload_to_s3 env ?p w'))" by (rule keep)
  next
    show "?F w" by simp
  qed
  have first: "?E (snd (upload_to_s3 env ?p w))"
    using upload_to_s3_events [of env ?p w] by (auto simp: path_name_today)
  have step: "?E (snd (upload_to_s3 env ?p w'))" if e: "?E w'" for w'
  proof -
    from e obtain evs where
      evs: "h_events w' = h_events w @ Upload ?p ?key # evs" "set evs \<subseteq> ?S" by blast
    from upload_to_s3_events [of env ?p w']
    consider "h_events (snd (upload_to_s3 env ?p w')) = h_events w' @ [Upload ?p ?key]"
      | "h_events (snd (upload_to_s3 env ?p w')) = h_events w' @ [Upload ?p ?key, Presign ?key]"
      by (auto simp: path_name_today)
    then show ?thesis
    proof cases
      case 1
      then have "h_events (snd (upload_to_s3 env ?p w'))
                   = h_events w @ Upload ?p ?key # (evs @ [Upload ?p ?key])"
        using evs(1) by simp
      moreover have "set (evs @ [Upload ?p ?key]) \<subseteq> ?S" using evs(2) by simp
      ultimately show ?thesis by blast
    next
      case 2
      then have "h_events (snd (upload_to_s3 env ?p w'))
                   = h_events w @ Upload ?p ?key # (evs @ [Upload ?p ?key, Presign ?key])"
        using evs(1) by simp
      moreover have "set (evs @ [Upload ?p ?key, Presign ?key]) \<subseteq> ?S" using evs(2) by simp
      ultimately show ?thesis by blast
    qed
  qed
  have c2: "?E (snd (run env w))"
    unfolding c1
  proof (rule retrying_after_first [where P = ?E])
    show "?E (snd (upload_to_s3 env ?p w))" by (rule first)
  next
    fix w' :: h_world
    assume "?E w'"
    then show "?E (snd (upload_to_s3 env ?p w'))" by (rule step)
  qed
  have inv: "?F (snd (retrying 3 (upload_to_s3 env ?p) w))
             \<and> (\<forall>v. fst (retrying 3 (upload_to_s3 env ?p) w) = Inr v \<longrightarrow> ?Q v)"
  proof (rule retrying_invariant [where P = ?F and Q = ?Q])
    fix w' :: h_world
    assume "?F w'"
    then show "?F (snd (upload_to_s3 env ?p w'))" by (rule keep)
  next
    fix w' :: h_world and v
    assume "?F w'" and "fst (upload_to_s3 env ?p w') = Inr v"
    then show "?Q v" using upload_to_s3_result [of env ?p w' v] by (simp add: path_name_today)
  next
    show "?F w" by simp
  qed
  have c3: "files (snd (run env w)) = files w" using inv unfolding c1 by blast
  have c4: "fst (run env w) = Inr u \<longrightarrow> ?Q u" using inv unfolding c1 by blast
  have c5: "run env w
              = (Inr (presigned_url env (h_events w @ [Upload ?p ?key]) ?key),
                 w\<lparr>h_events := h_events w @ [Upload ?p ?key, Presign ?key]\<rparr>)"
    if ok: "step_succeeds env (h_events w) (Upload ?p ?key)
            \<and> step_succeeds env (h_events w @ [Upload ?p ?key]) (Presign ?key)"
  proof -
    have u: "upload_to_s3 env ?p w
               = (Inr (presigned_url env (h_events w @ [Upload ?p ?key]) ?key),
                  w\<lparr>h_events := h_events w @ [Upload ?p ?key, Presign ?key]\<rparr>)"
      using upload_to_s3_ok [of env w ?p] ok by (simp add: path_name_today)
    then have "fst (upload_to_s3 env ?p w)
                 = Inr (presigned_url env (h_events w @ [Upload ?p ?key]) ?key)"
      by simp
    then have "retrying 3 (upload_to_s3 env ?p) w = upload_to_s3 env ?p w"
      by (rule retrying_first)
    with u show ?thesis unfolding c1 by simp
  qed
  from c1 c2 c3 c4 c5 show ?thesis by blast
qed

text \<open>The first run of the example finds the artifact and returns the URL signed then.\<close>

lemma first_run:
  "run signing_env artifact_present
     = (Inr ''https://s3.example/raw/ctis_2024-03-09.csv?X-Amz-Date=20240310T000000Z'',
        artifact_present\<lparr>h_events := [Upload (today_path sample_day) ''raw/ctis_2024-03-09.csv'',
                                        Presign ''raw/ctis_2024-03-09.csv'']\<rparr>)"
proof -
  have y: "\<And>h. yesterday signing_env h = sample_day" by (simp add: signing_env_def)
  have "run_once signing_env artifact_present
     = (Inr ''https://s3.example/raw/ctis_2024-03-09.csv?X-Amz-Date=20240310T000000Z'',
        artifact_present\<lparr>h_events := [Upload (today_path sample_day) ''raw/ctis_2024-03-09.csv'',
                                        Presign ''raw/ctis_2024-03-09.csv'']\<rparr>)"
    by (simp add: run_once_def y Let_def upload_to_s3_def h_call_def path_name_today
          format_sample_day)
       (simp add: signing_env_def artifact_present_def)
  moreover from this have "run signing_env artifact_present = run_once signing_env artifact_present"
    unfolding run_def by (intro retrying_first) simp
  ultimately show ?thesis by simp
qed

lemma after_first_run_world:
  "after_first_run
     = \<lparr>h_events = [Upload (today_path sample_day) ''raw/ctis_2024-03-09.csv'',
                    Presign ''raw/ctis_2024-03-09.csv''],
        files = {today_path sample_day}\<rparr>"
  by (simp add: after_first_run_def first_run) (simp add: artifact_present_def)

text \<open>The second run finds it too and returns the URL signed at the later moment.\<close>

lemma second_run:
  "fst (run signing_env after_first_run)
     = Inr ''https://s3.example/raw/ctis_2024-03-09.csv?X-Amz-Date=20240310T060000Z''"
proof -
  have y: "\<And>h. yesterday signing_env h = sample_day" by (simp add: signing_env_def)
  have r: "fst (run_once signing_env after_first_run)
     = Inr ''https://s3.example/raw/ctis_2024-03-09.csv?X-Amz-Date=20240310T060000Z''"
    by (simp add: run_once_def y Let_def upload_to_s3_def h_call_def path_name_today
          format_sample_day after_first_run_world)
       (simp add: signing_env_def)
  then have "run signing_env after_first_run = run_once signing_env after_first_run"
    unfolding run_def by (rule retrying_first)
  with r show ?thesis by simp
qed

text \<open>
  The theorem at the second run of the example: the artifact is in place, the run makes
  one upload and one presigning and nothing else, and returns the URL signed then.
\<close>

theorem run_with_existing_artifact_witness:
  "(\<forall>h. yesterday signing_env h = sample_day)
   \<and> today_path sample_day \<in> files after_first_run
   \<and> run signing_env after_first_run
     = (Inr ''https://s3.example/raw/ctis_2024-03-09.csv?X-Amz-Date=20240310T060000Z'',
        after_first_run\<lparr>h_events := h_events after_first_run
                            @ [Upload (today_path sample_day) ''raw/ctis_2024-03-09.csv'',
                               Presign ''raw/ctis_2024-03-09.csv'']\<rparr>)"
proof -
  have y: "\<forall>h. yesterday signing_env h = sample_day" by (simp add: signing_env_def)
  have f: "today_path sample_day \<in> files after_first_run" by (simp add: after_first_run_world)
  have ok: "step_succeeds signing_env (h_events after_first_run)
              (Upload (today_path sample_day) (''raw/ctis_'' @ format_ymd sample_day @ ''.csv''))
          \<and> step_succeeds signing_env
              (h_events after_first_run
               @ [Upload (today_path sample_day) (''raw/ctis_'' @ format_ymd sample_day @ ''.csv'')])
              (Presign (''raw/ctis_'' @ format_ymd sample_day @ ''.csv''))"
    by (simp add: signing_env_def)
  from run_with_existing_artifact [OF y f] ok
  have "run signing_env after_first_run
          = (Inr (presigned_url signing_env
                    (h_events after_first_run
                     @ [Upload (today_path sample_day)
                          (''raw/ctis_'' @ format_ymd sample_day @ ''.csv'')])
                    (''raw/ctis_'' @ format_ymd sample_day @ ''.csv'')),
             after_first_run\<lparr>h_events := h_events after_first_run
                  @ [Upload (today_path sample_day) (''raw/ctis_'' @ format_ymd sample_day @ ''.csv''),
                     Presign (''raw/ctis_'' @ format_ymd sample_day @ ''.csv'')]\<rparr>)"
    by blast
  moreover have "presigned_url signing_env
                    (h_events after_first_run
                     @ [Upload (today_path sample_day)
                          (''raw/ctis_'' @ format_ymd sample_day @ ''.csv'')])
                    (''raw/ctis_'' @ format_ymd sample_day @ ''.csv'')
                 = ''https://s3.example/raw/ctis_2024-03-09.csv?X-Amz-Date=20240310T060000Z''"
    by (simp add: format_sample_day after_first_run_world) (simp add: signing_env_def)
  ultimately show ?thesis using y f by (simp add: format_sample_day)
qed

text \<open>
  The claim of C5 fails in its last part. The artifact is in place before the first
  call and is not deleted; both calls find it, neither launches a browser, and the
  second returns another reference than the first, since the URL is presigned anew at
  each call.
\<close>

theorem run_twice_counterexample:
  "today_path sample_day \<in> files artifact_present
   \<and> today_path sample_day \<in> files after_first_run
   \<and> fst (run signing_env artifact_present)
     = Inr ''https://s3.example/raw/ctis_2024-03-09.csv?X-Amz-Date=20240310T000000Z''
   \<and> fst (run signing_env after_first_run)
     = Inr ''https://s3.example/raw/ctis_2024-03-09.csv?X-Amz-Date=20240310T060000Z''
   \<and> fst (run signing_env after_first_run) \<noteq> fst (run signing_env artifact_present)"
proof -
  have a: "today_path sample_day \<in> files artifact_present" by (simp add: artifact_present_def)
  have b: "today_path sample_day \<in> files after_first_run" by (simp add: after_first_run_world)
  have c: "fst (run signing_env artifact_present)
     = Inr ''https://s3.example/raw/ctis_2024-03-09.csv?X-Amz-Date=20240310T000000Z''"
    by (simp add: first_run)
  have e: "fst (run signing_env after_first_run) \<noteq> fst (run signing_env artifact_present)"
    unfolding c second_run by simp
  show ?thesis by (intro conjI) (rule a b c second_run e)+
qed


end
